theory Spec2Isabelle
  imports Complex_Main "HOL-Library.Word"
begin

section \<open>JavaScript strings\<close>

text \<open>
  A JavaScript string is a sequence of UTF-16 code units. Literals of the source are
  ASCII and are written through \<open>js\<close>.
\<close>

type_synonym jchar = "16 word"
type_synonym jstring = "jchar list"

definition js :: "string \<Rightarrow> jstring" where
  "js s = map (\<lambda>c. of_nat (of_char c)) s"

text \<open>
  \<open>String.prototype.trim\<close> strips WhiteSpace and LineTerminator code points from both
  ends: TAB, LF, VT, FF, CR, SP, NBSP, the other space separators of Unicode, LS, PS and
  the byte order mark.
\<close>

definition isWhiteSpace :: "jchar \<Rightarrow> bool" where
  "isWhiteSpace c \<longleftrightarrow> c \<in> set [0x0009, 0x000A, 0x000B, 0x000C, 0x000D, 0x0020, 0x00A0, 0x1680,
     0x2000, 0x2001, 0x2002, 0x2003, 0x2004, 0x2005, 0x2006, 0x2007, 0x2008, 0x2009, 0x200A,
     0x2028, 0x2029, 0x202F, 0x205F, 0x3000, 0xFEFF]"

definition trimStart :: "jstring \<Rightarrow> jstring" where
  "trimStart s = dropWhile isWhiteSpace s"

definition trimEnd :: "jstring \<Rightarrow> jstring" where
  "trimEnd s = rev (dropWhile isWhiteSpace (rev s))"

definition trim :: "jstring \<Rightarrow> jstring" where
  "trim s = trimEnd (trimStart s)"

text \<open>The decimal rendering of a non-negative integer, as a template literal or a
  property key of an array index gives it.\<close>

fun digits :: "nat \<Rightarrow> jstring" where
  "digits n = (if n < 10 then [of_nat (48 + n)]
               else digits (n div 10) @ [of_nat (48 + n mod 10)])"

declare digits.simps [simp del]

text \<open>\<open>Array.prototype.join\<close> on an array of strings.\<close>

fun join :: "jstring \<Rightarrow> jstring list \<Rightarrow> jstring" where
  "join sep [] = []"
| "join sep [x] = x"
| "join sep (x # y # ys) = x @ sep @ join sep (y # ys)"

section \<open>Plain objects and JSON values\<close>

text \<open>
  A plain object is kept as the list of its own enumerable properties in property order.
  A property assignment \<open>o[k] = v\<close> overwrites the property in place when the object has
  it and appends it otherwise. (Keys that are array indices are ordered first by the
  language; no object that the program builds by assignment has such a key.)
\<close>

fun obj_set :: "(jstring \<times> 'a) list \<Rightarrow> jstring \<Rightarrow> 'a \<Rightarrow> (jstring \<times> 'a) list" where
  "obj_set [] k v = [(k, v)]"
| "obj_set ((k', v') # ps) k v =
     (if k' = k then (k, v) # ps else (k', v') # obj_set ps k v)"

text \<open>What \<open>JSON.parse\<close> returns. The value of a number is never inspected.\<close>

datatype json =
    JNull
  | JBool bool
  | JNumber real
  | JString jstring
  | JArray "json list"
  | JObject "(jstring \<times> json) list"

datatype exception = TypeError | SyntaxError | RangeError | ServiceError

text \<open>
  \<open>Object.entries\<close>: the own enumerable properties of the argument after \<open>ToObject\<close>.
  \<open>null\<close> has no object form and raises; a boolean or a number has no own enumerable
  property; a string and an array have one property per index.
\<close>

fun Object_entries :: "json \<Rightarrow> exception + (jstring \<times> json) list" where
  "Object_entries JNull = Inl TypeError"
| "Object_entries (JBool b) = Inr []"
| "Object_entries (JNumber x) = Inr []"
| "Object_entries (JString s) =
     Inr (map2 (\<lambda>i c. (digits i, JString [c])) [0..<length s] s)"
| "Object_entries (JArray xs) = Inr (map2 (\<lambda>i x. (digits i, x)) [0..<length xs] xs)"
| "Object_entries (JObject ps) = Inr ps"

section \<open>Configuration\<close>

datatype field_config =
    Select (label: jstring) (options: "jstring list")
  | Text (label: jstring) (placeholder: jstring)

definition CONFIG_FIELDS :: "(jstring \<times> field_config) list" where
  "CONFIG_FIELDS =
   [(js ''cameraMovement'', Select (js ''Camera Movement'')
       (map js [''Static'', ''Pan'', ''Tilt'', ''Zoom'', ''Dolly'', ''Handheld'', ''Crane'',
                ''Steadicam'', ''Drone''])),
    (js ''lightingMode'', Select (js ''Lighting Mode'')
       (map js [''Natural'', ''Studio'', ''Backlit'', ''Low-key'', ''High-key'', ''Cinematic'',
                ''Ambient'', ''Hard Light''])),
    (js ''mood'', Select (js ''Mood'')
       (map js [''Cheerful'', ''Dramatic'', ''Calm'', ''Mysterious'', ''Romantic'', ''Tense'',
                ''Nostalgic'', ''Epic''])),
    (js ''colorPalette'', Select (js ''Color Palette'')
       (map js [''Warm'', ''Cool'', ''Monochrome'', ''Pastel'', ''Vibrant'', ''Muted'', ''Sepia'',
                ''Neon''])),
    (js ''subjectFocus'', Select (js ''Subject Focus'')
       (map js [''Face'', ''Full Body'', ''Object'', ''Group'', ''Macro'', ''Wide Shot'',
                ''Close-up'', ''Medium Shot''])),
    (js ''environmentalDetails'', Text (js ''Environmental Details'')
       (js ''e.g., foggy morning, neon-lit city'')),
    (js ''background'', Text (js ''Background'')
       (js ''e.g., bustling market, serene forest''))]"

section \<open>Program state\<close>

text \<open>
  The state the two functions read and write: the cache \<open>dom\<close> of page elements, each
  element reduced to the property the program uses (the \<open>value\<close> of a text area, an
  input or a select; \<open>disabled\<close> and \<open>textContent\<close> of the button; the content of the
  \<open>code\<close> element), the one property that the program can add to \<open>Object.prototype\<close>,
  and the trace of what the program shows, logs and sends. A \<open>None\<close> element is
  \<open>null\<close>. A control is the cell of the specification's FormState: it stores the
  string assigned to its \<open>value\<close> (what a browser makes of a string that is not an
  option of a select is not part of the program). The copy and download buttons play no
  part in the functions below and are left out.
\<close>

record button =
  disabled :: bool
  textContent :: jstring

datatype schema_type = OBJECT | STRING

record property =
  ptype :: schema_type
  description :: jstring

record schema =
  stype :: schema_type
  properties :: "(jstring \<times> property) list"

record request =
  model :: jstring
  contents :: jstring
  responseMimeType :: jstring
  responseSchema :: schema

datatype effect =
    Alert jstring
  | ConsoleError exception
  | GenerateContent request

text \<open>The \<open>code\<close> element shows the serialisation \<open>JSON.stringify(output, null, 2)\<close> of an
  object; the state keeps the object that is serialised.\<close>

datatype display = Blank | Shown "(jstring \<times> jstring) list"

record dom =
  rootElement :: bool
  promptInput :: "jstring option"
  enhanceButton :: "button option"
  jsonOutput :: "display option"
  configControls :: "(jstring \<times> jstring) list"
  objectPrototypeValue :: "jstring option"
  effects :: "effect list"

definition idleButton :: button where
  "idleButton = \<lparr>disabled = False, textContent = js ''Enhance with AI''\<rparr>"

definition buildUI :: "dom \<Rightarrow> dom" where
  "buildUI d =
     (if \<not> rootElement d then d
      else d\<lparr>promptInput := Some [],
             enhanceButton := Some idleButton,
             configControls :=
               fold (\<lambda>(key, config) cs. obj_set cs key []) CONFIG_FIELDS (configControls d),
             jsonOutput := Some Blank\<rparr>)"

section \<open>generateAndDisplayJSON\<close>

text \<open>
  \<open>for (const key in dom.configControls)\<close> visits the own keys of the object and then
  the enumerable keys it inherits. \<open>dom.configControls\<close> is a plain object, so it
  inherits from \<open>Object.prototype\<close>, whose only possible enumerable property here is
  \<open>value\<close>. Each key is paired with what \<open>dom.configControls[key].value\<close> reads: the
  control's value, and for the inherited string its own inherited \<open>value\<close>.
\<close>

definition for_in :: "dom \<Rightarrow> (jstring \<times> jstring) list" where
  "for_in d =
     configControls d @
     (case objectPrototypeValue d of
        None \<Rightarrow> []
      | Some x \<Rightarrow> if js ''value'' \<in> fst ` set (configControls d) then [] else [(js ''value'', x)])"

definition project :: "dom \<Rightarrow> (jstring \<times> jstring) list" where
  "project d =
     (let output = [];
          promptValue = map_option trim (promptInput d);
          output = (case promptValue of
                      None \<Rightarrow> output
                    | Some v \<Rightarrow> if v \<noteq> [] then obj_set output (js ''prompt'') v else output)
      in fold (\<lambda>(key, v) output.
                 let value = trim v
                 in if value \<noteq> [] then obj_set output key value else output)
              (for_in d) output)"

definition generateAndDisplayJSON :: "dom \<Rightarrow> dom" where
  "generateAndDisplayJSON d =
     (case jsonOutput d of
        None \<Rightarrow> d
      | Some _ \<Rightarrow> d\<lparr>jsonOutput := Some (Shown (project d))\<rparr>)"

section \<open>handleEnhanceClick\<close>

definition buildSchema :: schema where
  "buildSchema =
     \<lparr>stype = OBJECT,
      properties =
        fold (\<lambda>(key, p) obj. obj_set obj key p)
          (map (\<lambda>(key, config).
                  (key,
                   \<lparr>ptype = STRING,
                    description =
                      js ''Suggest a value for '' @ label config @ js ''. '' @
                      (case config of
                         Select _ opts \<Rightarrow> js ''Choose one of: '' @ join (js '', '') opts
                       | Text _ _ \<Rightarrow> [])\<rparr>))
               CONFIG_FIELDS)
          []\<rparr>"

definition buildRequest :: "jstring \<Rightarrow> request" where
  "buildRequest prompt =
     \<lparr>model = js ''gemini-2.5-flash'',
      contents =
        js ''Analyze this video prompt and extract the relevant parameters according to the schema. Prompt: \"''
        @ prompt @ js ''\"'',
      responseMimeType = js ''application/json'',
      responseSchema = buildSchema\<rparr>"

text \<open>
  What \<open>dom.configControls[key]\<close> evaluates to. The object is a plain one, so a key
  that is not a control is looked up in \<open>Object.prototype\<close>: \<open>__proto__\<close> is an accessor
  that returns \<open>Object.prototype\<close> itself, the built-in methods are function objects, and
  \<open>value\<close> is there once the program has put it there.
\<close>

datatype lookup = Control | ObjectPrototype | BuiltinFunction | InheritedString jstring | Undefined

definition Object_prototype_functions :: "jstring list" where
  "Object_prototype_functions =
     map js [''constructor'', ''hasOwnProperty'', ''isPrototypeOf'', ''propertyIsEnumerable'',
             ''toLocaleString'', ''toString'', ''valueOf'', ''__defineGetter__'',
             ''__defineSetter__'', ''__lookupGetter__'', ''__lookupSetter__'']"

definition get_control :: "dom \<Rightarrow> jstring \<Rightarrow> lookup" where
  "get_control d key =
     (if key \<in> fst ` set (configControls d) then Control
      else if key = js ''__proto__'' then ObjectPrototype
      else if key \<in> set Object_prototype_functions then BuiltinFunction
      else if key = js ''value'' then
        (case objectPrototypeValue d of None \<Rightarrow> Undefined | Some x \<Rightarrow> InheritedString x)
      else Undefined)"

fun truthy :: "lookup \<Rightarrow> bool" where
  "truthy Control = True"
| "truthy ObjectPrototype = True"
| "truthy BuiltinFunction = True"
| "truthy (InheritedString x) = (x \<noteq> [])"
| "truthy Undefined = False"

text \<open>
  \<open>dom.configControls[key].value = value\<close>, in the strict mode of a module. On a control
  it stores the value. On \<open>Object.prototype\<close> it creates the enumerable property
  \<open>value\<close>. On a built-in function it creates a property that nothing reads. On a
  primitive string it raises a TypeError.
\<close>

definition set_value :: "dom \<Rightarrow> jstring \<Rightarrow> jstring \<Rightarrow> exception + dom" where
  "set_value d key v =
     (case get_control d key of
        Control \<Rightarrow>
          Inr (d\<lparr>configControls :=
                   map (\<lambda>(k, old). if k = key then (k, v) else (k, old)) (configControls d)\<rparr>)
      | ObjectPrototype \<Rightarrow> Inr (d\<lparr>objectPrototypeValue := Some v\<rparr>)
      | BuiltinFunction \<Rightarrow> Inr d
      | InheritedString x \<Rightarrow> Inl TypeError
      | Undefined \<Rightarrow> Inl TypeError)"

text \<open>The loop over \<open>Object.entries(enhancedData)\<close>. An exception leaves the loop with
  the writes made so far.\<close>

fun merge :: "dom \<Rightarrow> (jstring \<times> json) list \<Rightarrow> exception option \<times> dom" where
  "merge d [] = (None, d)"
| "merge d ((key, value) # rest) =
     (case value of
        JString v \<Rightarrow>
          if truthy (get_control d key) then
            (case set_value d key v of
               Inl e \<Rightarrow> (Some e, d)
             | Inr d' \<Rightarrow> merge d' rest)
          else merge d rest
      | _ \<Rightarrow> merge d rest)"

text \<open>
  The body of the \<open>try\<close> block. The generation service and \<open>JSON.parse\<close> are parameters:
  \<open>generateContent\<close> gives the text of the response, or \<open>None\<close> when the awaited call
  raises; \<open>JSON_parse\<close> gives the parsed value, or \<open>None\<close> for a SyntaxError (a response
  without text parses as \<open>undefined\<close> and takes this path too). The call is one step:
  no event is handled while the request is in flight.
\<close>

definition try_enhance ::
  "(request \<Rightarrow> jstring option) \<Rightarrow> (jstring \<Rightarrow> json option) \<Rightarrow> jstring \<Rightarrow> dom \<Rightarrow> exception option \<times> dom"
where
  "try_enhance generateContent JSON_parse prompt d =
     (let req = buildRequest prompt;
          d = d\<lparr>effects := effects d @ [GenerateContent req]\<rparr>
      in case generateContent req of
           None \<Rightarrow> (Some ServiceError, d)
         | Some response_text \<Rightarrow>
             (case JSON_parse response_text of
                None \<Rightarrow> (Some SyntaxError, d)
              | Some enhancedData \<Rightarrow>
                  (case Object_entries enhancedData of
                     Inl e \<Rightarrow> (Some e, d)
                   | Inr entries \<Rightarrow> merge d entries)))"

definition handleEnhanceClick ::
  "(request \<Rightarrow> jstring option) \<Rightarrow> (jstring \<Rightarrow> json option) \<Rightarrow> dom \<Rightarrow> dom"
where
  "handleEnhanceClick generateContent JSON_parse d =
     (case (promptInput d, enhanceButton d) of
        (Some p, Some b) \<Rightarrow>
          let prompt = trim p
          in if prompt = [] then d\<lparr>effects := effects d @ [Alert (js ''Please enter a prompt first.'')]\<rparr>
             else
               let d = d\<lparr>enhanceButton := Some \<lparr>disabled = True, textContent = js ''Enhancing...''\<rparr>\<rparr>;
                   (thrown, d) = try_enhance generateContent JSON_parse prompt d;
                   d = (case thrown of
                          None \<Rightarrow> d
                        | Some error \<Rightarrow>
                            d\<lparr>effects := effects d @
                               [ConsoleError error,
                                Alert (js ''An error occurred while enhancing the prompt. Please check the console for details.'')]\<rparr>);
                   d = generateAndDisplayJSON d
               in d\<lparr>enhanceButton := Some idleButton\<rparr>
      | _ \<Rightarrow> d)"

section \<open>generatePromptsBatch\<close>

text \<open>
  \<open>formState\<close> has type \<open>any\<close>. It is \<open>null\<close> or \<open>undefined\<close>, and then reading
  \<open>formState.keyword\<close> raises a TypeError, or it is a value whose \<open>keyword\<close> is missing
  (and reads as \<open>undefined\<close>) or is any value of the language. The template literal
  converts that value with \<open>ToString\<close>: a string is itself, \<open>undefined\<close>, \<open>null\<close> and the
  booleans have their names, a Symbol raises a TypeError. A number or a bigint is given
  here by its rendering, and an object by what its conversion to a primitive and then to
  a string yields, a string or an exception. A keyword field is a data property: reading
  it gives its value.
\<close>

datatype js_value =
    VUndefined
  | VNull
  | VBoolean bool
  | VNumeric jstring
  | VString jstring
  | VSymbol
  | VObject "exception + jstring"

fun ToString :: "js_value \<Rightarrow> exception + jstring" where
  "ToString VUndefined = Inr (js ''undefined'')"
| "ToString VNull = Inr (js ''null'')"
| "ToString (VBoolean b) = Inr (if b then js ''true'' else js ''false'')"
| "ToString (VNumeric rendering) = Inr rendering"
| "ToString (VString s) = Inr s"
| "ToString VSymbol = Inl TypeError"
| "ToString (VObject conversion) = conversion"

datatype form_state = Nullish | FormObject "js_value option"

definition keyword :: "form_state \<Rightarrow> exception + js_value" where
  "keyword formState =
     (case formState of
        Nullish \<Rightarrow> Inl TypeError
      | FormObject None \<Rightarrow> Inr VUndefined
      | FormObject (Some v) \<Rightarrow> Inr v)"

fun map_callback :: "(nat \<Rightarrow> exception + 'a) \<Rightarrow> nat list \<Rightarrow> exception + 'a list" where
  "map_callback f [] = Inr []"
| "map_callback f (i # is) =
     (case f i of
        Inl e \<Rightarrow> Inl e
      | Inr x \<Rightarrow> (case map_callback f is of Inl e \<Rightarrow> Inl e | Inr xs \<Rightarrow> Inr (x # xs)))"

text \<open>
  \<open>Array.from({length: quantity}, f)\<close> first constructs an array of \<open>quantity\<close> elements
  and then calls \<open>f\<close> at each index in turn. The language raises a RangeError for a
  length beyond \<open>2^32 - 1\<close>. Below that bound an engine may still refuse the array for
  lack of room: \<open>allocate\<close> is the engine's part, \<open>None\<close> when it provides the array and
  the exception it raises otherwise.
\<close>

definition generatePromptsBatch ::
  "(nat \<Rightarrow> exception option) \<Rightarrow> form_state \<Rightarrow> nat \<Rightarrow> exception + jstring list"
where
  "generatePromptsBatch allocate formState quantity =
     (if quantity > 2 ^ 32 - 1 then Inl RangeError
      else case allocate quantity of
             Some e \<Rightarrow> Inl e
           | None \<Rightarrow>
               map_callback
                 (\<lambda>i. case keyword formState of
                         Inl e \<Rightarrow> Inl e
                       | Inr v \<Rightarrow>
                           (case ToString v of
                              Inl e \<Rightarrow> Inl e
                            | Inr k \<Rightarrow>
                                Inr (js ''Generated prompt '' @ digits (i + 1) @ js '' for '' @ k)))
                 [0..<quantity])"

section \<open>Notions of the specification\<close>

text \<open>The keys of the Field Registry, in registry order.\<close>

definition registryKeys :: "jstring list" where
  "registryKeys = map fst CONFIG_FIELDS"

text \<open>
  A page as \<open>buildUI\<close> leaves it has one control per registry key, in registry order;
  a pristine environment is one where \<open>Object.prototype\<close> has no enumerable property.
\<close>

definition registryControls :: "dom \<Rightarrow> bool" where
  "registryControls d \<longleftrightarrow> map fst (configControls d) = registryKeys"

definition pristine :: "dom \<Rightarrow> bool" where
  "pristine d \<longleftrightarrow> objectPrototypeValue d = None"

text \<open>The FormState of the specification read at a key: the prompt under the reserved
  key, a control's value under its key, and the empty string for a missing key.\<close>

definition formValue :: "dom \<Rightarrow> jstring \<Rightarrow> jstring" where
  "formValue d k =
     (if k = js ''prompt'' then (case promptInput d of None \<Rightarrow> [] | Some p \<Rightarrow> p)
      else (case map_of (configControls d) k of None \<Rightarrow> [] | Some v \<Rightarrow> v))"

text \<open>The entries that survive the projection: those whose trimmed value is not empty,
  each with its trimmed value.\<close>

definition kept :: "(jstring \<times> jstring) list \<Rightarrow> (jstring \<times> jstring) list" where
  "kept xs = map (\<lambda>(k, v). (k, trim v)) (filter (\<lambda>(k, v). trim v \<noteq> []) xs)"

definition promptEntry :: "dom \<Rightarrow> (jstring \<times> jstring) list" where
  "promptEntry d =
     (case promptInput d of
        None \<Rightarrow> []
      | Some p \<Rightarrow> if trim p \<noteq> [] then [(js ''prompt'', trim p)] else [])"

text \<open>
  An OutputDocument interpreted back as a FormState: every field of the form takes the
  value the document has under its key, and the empty string when the document has no
  such key.
\<close>

definition project_roundtrip :: "(jstring \<times> jstring) list \<Rightarrow> dom \<Rightarrow> dom" where
  "project_roundtrip out d =
     d\<lparr>promptInput :=
         map_option (\<lambda>_. case map_of out (js ''prompt'') of None \<Rightarrow> [] | Some v \<Rightarrow> v)
           (promptInput d),
       configControls :=
         map (\<lambda>(k, _). (k, case map_of out k of None \<Rightarrow> [] | Some v \<Rightarrow> v)) (configControls d)\<rparr>"

text \<open>What the merge of a response leaves alone: the page elements other than the
  controls' values, the trace, and the keys of the controls.\<close>

definition sameFrame :: "dom \<Rightarrow> dom \<Rightarrow> bool" where
  "sameFrame d d' \<longleftrightarrow>
     rootElement d' = rootElement d \<and> promptInput d' = promptInput d \<and>
     enhanceButton d' = enhanceButton d \<and> jsonOutput d' = jsonOutput d \<and>
     effects d' = effects d \<and> map fst (configControls d') = map fst (configControls d)"

section \<open>Example states\<close>

definition emptyPage :: dom where
  "emptyPage = \<lparr>rootElement = True, promptInput = None, enhanceButton = None,
     jsonOutput = None, configControls = [], objectPrototypeValue = None, effects = []\<rparr>"

definition freshPage :: dom where
  "freshPage = generateAndDisplayJSON (buildUI emptyPage)"

definition marsPage :: dom where
  "marsPage = freshPage\<lparr>promptInput := Some (js ''A lone astronaut on Mars'')\<rparr>"

definition dronePage :: dom where
  "dronePage = freshPage\<lparr>configControls :=
     map (\<lambda>(k, v). (k, if k = js ''cameraMovement'' then js ''Drone''
                         else if k = js ''mood'' then js ''  Epic '' else v))
       (configControls freshPage)\<rparr>"

definition blankPromptPage :: dom where
  "blankPromptPage = freshPage\<lparr>promptInput := Some [0x0020, 0x0009, 0x3000, 0x000A]\<rparr>"

text \<open>A response with keys that \<open>Object.prototype\<close> answers for.\<close>

definition inheritedKeysResponse :: json where
  "inheritedKeysResponse =
     JObject [(js ''__proto__'', JString (js ''x'')), (js ''value'', JString (js ''y'')),
              (js ''mood'', JString (js ''Epic''))]"

text \<open>The response of the specification's example.\<close>

definition panResponse :: json where
  "panResponse =
     JObject [(js ''cameraMovement'', JString (js ''Pan'')), (js ''mood'', JNumber 7),
              (js ''unknownKey'', JString (js ''x''))]"

text \<open>A response with the key \<open>__proto__\<close> and a registry entry.\<close>

definition protoMoodResponse :: json where
  "protoMoodResponse =
     JObject [(js ''__proto__'', JString (js ''x'')), (js ''mood'', JString (js ''Epic''))]"

text \<open>The pages the program itself reaches from \<open>marsPage\<close> on these two responses.\<close>

definition pollutedPage :: dom where
  "pollutedPage = handleEnhanceClick (\<lambda>_. Some []) (\<lambda>_. Some inheritedKeysResponse) marsPage"

definition pollutedMoodPage :: dom where
  "pollutedMoodPage = handleEnhanceClick (\<lambda>_. Some []) (\<lambda>_. Some protoMoodResponse) marsPage"

section \<open>Trimming\<close>

lemma dropWhile_hd_id: "xs \<noteq> [] \<Longrightarrow> \<not> P (hd xs) \<Longrightarrow> dropWhile P xs = xs"
  by (cases xs) auto

lemma trimStart_hd: "trimStart s \<noteq> [] \<Longrightarrow> \<not> isWhiteSpace (hd (trimStart s))"
  unfolding trimStart_def by (rule hd_dropWhile)

lemma trimEnd_last: "trimEnd s \<noteq> [] \<Longrightarrow> \<not> isWhiteSpace (last (trimEnd s))"
  unfolding trimEnd_def using hd_dropWhile [of isWhiteSpace "rev s"]
  by (simp add: last_rev)

lemma trimEnd_hd: "trimEnd s \<noteq> [] \<Longrightarrow> hd (trimEnd s) = hd s"
proof (induction s rule: rev_induct)
  case Nil
  then show ?case by (simp add: trimEnd_def)
next
  case (snoc x xs)
  show ?case
  proof (cases "isWhiteSpace x")
    case True
    with snoc have ne: "trimEnd xs \<noteq> []" and eq: "trimEnd (xs @ [x]) = trimEnd xs"
      by (simp_all add: trimEnd_def)
    from ne have "xs \<noteq> []" by (auto simp: trimEnd_def)
    with snoc.IH [OF ne] eq show ?thesis by simp
  next
    case False
    then show ?thesis by (simp add: trimEnd_def)
  qed
qed

lemma trimEnd_fixed: "s \<noteq> [] \<Longrightarrow> \<not> isWhiteSpace (last s) \<Longrightarrow> trimEnd s = s"
  unfolding trimEnd_def
  by (metis dropWhile_hd_id hd_rev rev_is_Nil_conv rev_rev_ident)

lemma trimStart_fixed: "s \<noteq> [] \<Longrightarrow> \<not> isWhiteSpace (hd s) \<Longrightarrow> trimStart s = s"
  unfolding trimStart_def by (rule dropWhile_hd_id)

lemma trim_Nil: "trim [] = []"
  by (simp add: trim_def trimStart_def trimEnd_def)

lemma trim_idem: "trim (trim s) = trim s"
proof (cases "trim s = []")
  case True
  with trim_Nil show ?thesis by simp
next
  case False
  then have ne: "trimStart s \<noteq> []" by (auto simp: trim_def trimEnd_def)
  from False have "hd (trim s) = hd (trimStart s)"
    unfolding trim_def by (rule trimEnd_hd)
  with trimStart_hd [OF ne] have h: "\<not> isWhiteSpace (hd (trim s))" by simp
  from False have l: "\<not> isWhiteSpace (last (trim s))"
    unfolding trim_def by (rule trimEnd_last)
  from False h have "trimStart (trim s) = trim s" by (rule trimStart_fixed)
  moreover from False l have "trimEnd (trim s) = trim s" by (rule trimEnd_fixed)
  ultimately show ?thesis by (simp add: trim_def [of "trim s"])
qed

section \<open>The projection in closed form\<close>

lemma obj_set_fresh: "k \<notin> fst ` set ps \<Longrightarrow> obj_set ps k v = ps @ [(k, v)]"
  by (induction ps) auto

lemma fold_fresh:
  "distinct (map fst xs) \<Longrightarrow> fst ` set xs \<inter> fst ` set acc = {} \<Longrightarrow>
   fold (\<lambda>(key, v) output.
           let value = trim v in if value \<noteq> [] then obj_set output key value else output)
     xs acc
   = acc @ kept xs"
proof (induction xs arbitrary: acc)
  case Nil
  then show ?case by (simp add: kept_def)
next
  case (Cons x xs)
  obtain k v where x: "x = (k, v)" by (cases x)
  show ?case
  proof (cases "trim v = []")
    case True
    with Cons x show ?thesis by (auto simp: kept_def)
  next
    case False
    from Cons.prems x have fresh: "k \<notin> fst ` set acc" by auto
    have "fst ` set xs \<inter> fst ` set (acc @ [(k, trim v)]) = {}"
      using Cons.prems x by (auto simp: image_iff)
    with Cons.IH [of "acc @ [(k, trim v)]"] Cons.prems
    have "fold (\<lambda>(key, v) output.
                  let value = trim v in if value \<noteq> [] then obj_set output key value else output)
            xs (acc @ [(k, trim v)])
          = (acc @ [(k, trim v)]) @ kept xs" by simp
    with False x fresh show ?thesis by (simp add: obj_set_fresh kept_def)
  qed
qed

lemma registryKeys_eval:
  "registryKeys = map js [''cameraMovement'', ''lightingMode'', ''mood'', ''colorPalette'',
     ''subjectFocus'', ''environmentalDetails'', ''background'']"
  by (simp add: registryKeys_def CONFIG_FIELDS_def)

lemma registryKeys_distinct: "distinct registryKeys"
  by (simp add: registryKeys_eval js_def)

lemma prompt_not_registry: "js ''prompt'' \<notin> set registryKeys"
  by (simp add: registryKeys_eval js_def)

lemma value_not_registry: "js ''value'' \<notin> set registryKeys"
  by (simp add: registryKeys_eval js_def)

lemma for_in_keys:
  assumes "registryControls d"
  shows "distinct (map fst (for_in d))" and "js ''prompt'' \<notin> fst ` set (for_in d)"
proof -
  from assms have k: "map fst (configControls d) = registryKeys"
    by (simp add: registryControls_def)
  then have s: "fst ` set (configControls d) = set registryKeys"
    by (metis set_map)
  show "distinct (map fst (for_in d))"
    using k s registryKeys_distinct value_not_registry
    by (auto simp: for_in_def split: option.splits)
  show "js ''prompt'' \<notin> fst ` set (for_in d)"
    using s prompt_not_registry
    by (auto simp: for_in_def js_def split: option.splits)
qed

lemma project_closed:
  assumes "registryControls d"
  shows "project d = promptEntry d @ kept (for_in d)"
proof -
  have "fst ` set (for_in d) \<inter> fst ` set (promptEntry d) = {}"
    using for_in_keys(2) [OF assms] by (force simp: promptEntry_def split: option.splits if_splits)
  with for_in_keys(1) [OF assms]
  have "fold (\<lambda>(key, v) output.
           let value = trim v in if value \<noteq> [] then obj_set output key value else output)
     (for_in d) (promptEntry d) = promptEntry d @ kept (for_in d)"
    by (rule fold_fresh)
  moreover have "project d = fold (\<lambda>(key, v) output.
           let value = trim v in if value \<noteq> [] then obj_set output key value else output)
     (for_in d) (promptEntry d)"
    by (cases "promptInput d") (simp_all add: project_def promptEntry_def Let_def)
  ultimately show ?thesis by simp
qed

lemma for_in_pristine: "pristine d \<Longrightarrow> for_in d = configControls d"
  by (simp add: for_in_def pristine_def)

lemma kept_keys:
  "distinct (map fst xs) \<Longrightarrow>
   map fst (kept xs) =
   filter (\<lambda>k. trim (case map_of xs k of None \<Rightarrow> [] | Some v \<Rightarrow> v) \<noteq> []) (map fst xs)"
proof (induction xs)
  case Nil
  then show ?case by (simp add: kept_def)
next
  case (Cons x xs)
  obtain k v where x: "x = (k, v)" by (cases x)
  from Cons.prems x have nk: "k \<notin> fst ` set xs" by simp
  have "filter (\<lambda>k'. trim (case map_of (x # xs) k' of None \<Rightarrow> [] | Some v \<Rightarrow> v) \<noteq> []) (map fst xs)
      = filter (\<lambda>k'. trim (case map_of xs k' of None \<Rightarrow> [] | Some v \<Rightarrow> v) \<noteq> []) (map fst xs)"
    using nk x by (intro filter_cong) (auto simp: image_iff)
  with Cons x show ?case by (auto simp: kept_def)
qed

lemma kept_member:
  "distinct (map fst xs) \<Longrightarrow> (k, v) \<in> set (kept xs) \<Longrightarrow>
   (\<exists>v0. map_of xs k = Some v0 \<and> v = trim v0) \<and> v \<noteq> []"
  by (auto simp: kept_def)

lemma kept_append: "kept (xs @ ys) = kept xs @ kept ys"
  by (simp add: kept_def)

lemma map_of_kept:
  "distinct (map fst xs) \<Longrightarrow>
   map_of (kept xs) k =
   (case map_of xs k of None \<Rightarrow> None | Some v \<Rightarrow> if trim v \<noteq> [] then Some (trim v) else None)"
proof (induction xs)
  case Nil
  then show ?case by (simp add: kept_def)
next
  case (Cons x xs)
  obtain k' v' where x: "x = (k', v')" by (cases x)
  from Cons.prems x have "k' \<notin> fst ` set xs" by simp
  then have "map_of xs k' = None" by (simp add: map_of_eq_None_iff)
  with Cons x show ?case by (auto simp: kept_def)
qed

lemma kept_retrim:
  "kept (map (\<lambda>(k, v). (k, if trim v \<noteq> [] then trim v else [])) xs) = kept xs"
  by (induction xs) (auto simp: kept_def trim_idem trim_Nil)

lemma freshPage_eval:
  "freshPage = \<lparr>rootElement = True, promptInput = Some [], enhanceButton = Some idleButton,
     jsonOutput = Some (Shown []),
     configControls = map (\<lambda>k. (k, [])) registryKeys,
     objectPrototypeValue = None, effects = []\<rparr>"
  by (simp add: freshPage_def emptyPage_def buildUI_def generateAndDisplayJSON_def project_def
      for_in_def registryKeys_def CONFIG_FIELDS_def js_def trim_Nil)

lemma freshPage_registryControls: "registryControls freshPage"
  by (simp add: freshPage_eval registryControls_def comp_def)

section \<open>Form State Projector\<close>

text \<open>
  In a pristine environment, on a page with the registry's controls, every entry of the
  projected object has the reserved prompt key or a registry key, and its value is the
  trimmed value of the form at that key, which is not empty.
\<close>

lemma project_sound_pristine:
  assumes "registryControls d" and "pristine d" and "(k, v) \<in> set (project d)"
  shows "k \<in> set (js ''prompt'' # registryKeys) \<and> trim (formValue d k) \<noteq> [] \<and>
         v = trim (formValue d k) \<and> v \<noteq> []"
proof -
  from assms(1) have keys: "map fst (configControls d) = registryKeys"
    by (simp add: registryControls_def)
  from assms have "(k, v) \<in> set (promptEntry d) \<or> (k, v) \<in> set (kept (configControls d))"
    by (simp add: project_closed for_in_pristine)
  then show ?thesis
  proof
    assume "(k, v) \<in> set (promptEntry d)"
    then show ?thesis
      by (auto simp: promptEntry_def formValue_def split: option.splits if_splits)
  next
    assume m: "(k, v) \<in> set (kept (configControls d))"
    from keys registryKeys_distinct have dist: "distinct (map fst (configControls d))" by simp
    from kept_member [OF dist m] obtain v0
      where v0: "map_of (configControls d) k = Some v0" "v = trim v0" "v \<noteq> []" by blast
    from v0(1) have "(k, v0) \<in> set (configControls d)" by (rule map_of_SomeD)
    then have "k \<in> fst ` set (configControls d)" by force
    then have reg: "k \<in> set registryKeys" using keys by (metis set_map)
    with prompt_not_registry have "k \<noteq> js ''prompt''" by auto
    with v0 reg show ?thesis by (simp add: formValue_def)
  qed
qed

lemma project_sound_example:
  "registryControls marsPage \<and> pristine marsPage \<and>
   (js ''prompt'', js ''A lone astronaut on Mars'') \<in> set (project marsPage) \<and>
   project marsPage = [(js ''prompt'', js ''A lone astronaut on Mars'')] \<and>
   js ''prompt'' \<in> set (js ''prompt'' # registryKeys) \<and>
   trim (formValue marsPage (js ''prompt'')) \<noteq> [] \<and>
   js ''A lone astronaut on Mars'' = trim (formValue marsPage (js ''prompt''))"
proof -
  have r: "registryControls marsPage"
    using freshPage_registryControls by (simp add: marsPage_def registryControls_def)
  have p: "pristine marsPage"
    by (simp add: marsPage_def freshPage_eval pristine_def)
  have e: "project marsPage = [(js ''prompt'', js ''A lone astronaut on Mars'')]"
    by (simp add: marsPage_def freshPage_eval project_def for_in_def registryKeys_eval
        js_def trim_def trimStart_def trimEnd_def isWhiteSpace_def)
  then have m: "(js ''prompt'', js ''A lone astronaut on Mars'') \<in> set (project marsPage)"
    by simp
  from project_sound_pristine [OF r p m] r p e m show ?thesis by simp
qed

text \<open>
  In a pristine environment, the keys of the projected object are the prompt key, when
  the trimmed prompt is not empty, followed by the registry keys whose trimmed value is
  not empty, in registry order.
\<close>

lemma project_order_pristine:
  assumes "registryControls d" and "pristine d"
  shows "map fst (project d) =
         (if trim (formValue d (js ''prompt'')) \<noteq> [] then [js ''prompt''] else []) @
         filter (\<lambda>k. trim (formValue d k) \<noteq> []) registryKeys"
proof -
  from assms(1) have keys: "map fst (configControls d) = registryKeys"
    by (simp add: registryControls_def)
  with registryKeys_distinct have dist: "distinct (map fst (configControls d))" by simp
  have p: "map fst (promptEntry d) =
           (if trim (formValue d (js ''prompt'')) \<noteq> [] then [js ''prompt''] else [])"
    by (simp add: promptEntry_def formValue_def trim_Nil split: option.splits)
  have "filter (\<lambda>k. trim (formValue d k) \<noteq> []) registryKeys =
        filter (\<lambda>k. trim (case map_of (configControls d) k of None \<Rightarrow> [] | Some v \<Rightarrow> v) \<noteq> [])
          registryKeys"
    using prompt_not_registry by (intro filter_cong) (auto simp: formValue_def)
  with kept_keys [OF dist] keys
  have c: "map fst (kept (configControls d)) = filter (\<lambda>k. trim (formValue d k) \<noteq> []) registryKeys"
    by simp
  from assms have "project d = promptEntry d @ kept (configControls d)"
    by (simp add: project_closed for_in_pristine)
  with p c show ?thesis by simp
qed

lemma project_order_example:
  "registryControls dronePage \<and> pristine dronePage \<and>
   project dronePage = [(js ''cameraMovement'', js ''Drone''), (js ''mood'', js ''Epic'')] \<and>
   (if trim (formValue dronePage (js ''prompt'')) \<noteq> [] then [js ''prompt''] else []) @
     filter (\<lambda>k. trim (formValue dronePage k) \<noteq> []) registryKeys
   = [js ''cameraMovement'', js ''mood'']"
proof -
  have c: "configControls dronePage =
     [(js ''cameraMovement'', js ''Drone''), (js ''lightingMode'', []), (js ''mood'', js ''  Epic ''),
      (js ''colorPalette'', []), (js ''subjectFocus'', []), (js ''environmentalDetails'', []),
      (js ''background'', [])]"
    by (simp add: dronePage_def freshPage_eval registryKeys_eval js_def)
  have r: "registryControls dronePage"
    by (simp add: c registryControls_def registryKeys_eval)
  have p: "pristine dronePage"
    by (simp add: dronePage_def freshPage_eval pristine_def)
  have pr: "promptInput dronePage = Some []"
    by (simp add: dronePage_def freshPage_eval)
  have o: "objectPrototypeValue dronePage = None"
    using p by (simp add: pristine_def)
  have e: "project dronePage = [(js ''cameraMovement'', js ''Drone''), (js ''mood'', js ''Epic'')]"
    by (simp add: project_def for_in_def c pr o
        js_def trim_def trimStart_def trimEnd_def isWhiteSpace_def)
  from project_order_pristine [OF r p] r p e show ?thesis by simp
qed

lemma roundtrip_controls:
  assumes "registryControls d"
  shows "configControls (project_roundtrip (project d) d) =
         map (\<lambda>(k, v). (k, if trim v \<noteq> [] then trim v else [])) (configControls d)"
proof -
  from assms have keys: "map fst (configControls d) = registryKeys"
    by (simp add: registryControls_def)
  with registryKeys_distinct have dist: "distinct (map fst (configControls d))" by simp
  have out: "project d = promptEntry d @ kept (for_in d)"
    using assms by (rule project_closed)
  have "(case map_of (project d) k of None \<Rightarrow> [] | Some w \<Rightarrow> w) =
        (if trim v \<noteq> [] then trim v else [])"
    if kv: "(k, v) \<in> set (configControls d)" for k v
  proof -
    from kv have "k \<in> fst ` set (configControls d)" by force
    with keys have "k \<in> set registryKeys" by (metis set_map)
    with prompt_not_registry have "k \<noteq> js ''prompt''" by auto
    then have p: "map_of (promptEntry d) k = None"
      by (simp add: promptEntry_def split: option.splits)
    from dist kv have own: "map_of (configControls d) k = Some v" by simp
    then have "map_of (for_in d) k = Some v" by (simp add: for_in_def)
    with map_of_kept [OF for_in_keys(1) [OF assms], of k]
    have "map_of (kept (for_in d)) k = (if trim v \<noteq> [] then Some (trim v) else None)" by simp
    with p out show ?thesis by (simp add: map_add_def)
  qed
  then have "map (\<lambda>(k, _). (k, case map_of (project d) k of None \<Rightarrow> [] | Some w \<Rightarrow> w)) (configControls d)
           = map (\<lambda>(k, v). (k, if trim v \<noteq> [] then trim v else [])) (configControls d)"
    by (intro map_cong) auto
  then show ?thesis by (simp add: project_roundtrip_def)
qed

lemma roundtrip_prompt:
  assumes "registryControls d"
  shows "promptEntry (project_roundtrip (project d) d) = promptEntry d"
proof (cases "promptInput d")
  case None
  then show ?thesis by (simp add: promptEntry_def project_roundtrip_def)
next
  case (Some p)
  have out: "project d = promptEntry d @ kept (for_in d)"
    using assms by (rule project_closed)
  from for_in_keys(2) [OF assms] have "map_of (for_in d) (js ''prompt'') = None"
    by (simp add: map_of_eq_None_iff)
  with map_of_kept [OF for_in_keys(1) [OF assms], of "js ''prompt''"]
  have "map_of (kept (for_in d)) (js ''prompt'') = None" by simp
  with out Some have "map_of (project d) (js ''prompt'') =
        (if trim p \<noteq> [] then Some (trim p) else None)"
    by (simp add: promptEntry_def map_add_def)
  with Some show ?thesis
    by (simp add: promptEntry_def project_roundtrip_def trim_idem trim_Nil)
qed

text \<open>
  Claim C9. Projecting, reading the projected object back as the values of the form, and
  projecting again gives the projected object again.
\<close>

theorem project_idempotent:
  assumes "registryControls d"
  shows "project (project_roundtrip (project d) d) = project d"
proof -
  let ?d' = "project_roundtrip (project d) d"
  have keys': "map fst (configControls ?d') = map fst (configControls d)"
    by (simp add: project_roundtrip_def comp_def case_prod_unfold)
  with assms have reg': "registryControls ?d'" by (simp add: registryControls_def)
  from keys' have "set (map fst (configControls ?d')) = set (map fst (configControls d))" by simp
  then have img: "fst ` set (configControls ?d') = fst ` set (configControls d)" by simp
  have env: "objectPrototypeValue ?d' = objectPrototypeValue d"
    by (simp add: project_roundtrip_def)
  let ?inherited = "case objectPrototypeValue d of
                      None \<Rightarrow> []
                    | Some x \<Rightarrow> if js ''value'' \<in> fst ` set (configControls d) then []
                                else [(js ''value'', x)]"
  have "for_in ?d' = configControls ?d' @ ?inherited"
    by (cases "objectPrototypeValue d") (simp_all add: for_in_def env img)
  then have "kept (for_in ?d') = kept (configControls d) @ kept ?inherited"
    by (simp add: kept_append roundtrip_controls [OF assms] kept_retrim)
  moreover have "kept (for_in d) = kept (configControls d) @ kept ?inherited"
    by (simp add: for_in_def kept_append)
  ultimately have "kept (for_in ?d') = kept (for_in d)" by simp
  with project_closed [OF reg'] project_closed [OF assms] roundtrip_prompt [OF assms]
  show ?thesis by simp
qed

theorem project_idempotent_witness:
  "registryControls dronePage \<and>
   project dronePage = [(js ''cameraMovement'', js ''Drone''), (js ''mood'', js ''Epic'')] \<and>
   configControls (project_roundtrip (project dronePage) dronePage) =
     [(js ''cameraMovement'', js ''Drone''), (js ''lightingMode'', []), (js ''mood'', js ''Epic''),
      (js ''colorPalette'', []), (js ''subjectFocus'', []), (js ''environmentalDetails'', []),
      (js ''background'', [])] \<and>
   project (project_roundtrip (project dronePage) dronePage) =
     [(js ''cameraMovement'', js ''Drone''), (js ''mood'', js ''Epic'')]"
proof -
  have c: "configControls dronePage =
     [(js ''cameraMovement'', js ''Drone''), (js ''lightingMode'', []), (js ''mood'', js ''  Epic ''),
      (js ''colorPalette'', []), (js ''subjectFocus'', []), (js ''environmentalDetails'', []),
      (js ''background'', [])]"
    by (simp add: dronePage_def freshPage_eval registryKeys_eval js_def)
  have r: "registryControls dronePage"
    by (simp add: c registryControls_def registryKeys_eval)
  have pr: "promptInput dronePage = Some []" and o: "objectPrototypeValue dronePage = None"
    by (simp_all add: dronePage_def freshPage_eval)
  have e: "project dronePage = [(js ''cameraMovement'', js ''Drone''), (js ''mood'', js ''Epic'')]"
    by (simp add: project_def for_in_def c pr o
        js_def trim_def trimStart_def trimEnd_def isWhiteSpace_def)
  have rt: "configControls (project_roundtrip (project dronePage) dronePage) =
     [(js ''cameraMovement'', js ''Drone''), (js ''lightingMode'', []), (js ''mood'', js ''Epic''),
      (js ''colorPalette'', []), (js ''subjectFocus'', []), (js ''environmentalDetails'', []),
      (js ''background'', [])]"
    by (simp add: e project_roundtrip_def c) (simp add: js_def)
  from project_idempotent [OF r] r e rt show ?thesis by simp
qed

section \<open>Enhancement Client\<close>

lemma fold_obj_set_fresh:
  "distinct (map fst xs) \<Longrightarrow> fst ` set xs \<inter> fst ` set acc = {} \<Longrightarrow>
   fold (\<lambda>(key, p) obj. obj_set obj key p) xs acc = acc @ xs"
proof (induction xs arbitrary: acc)
  case Nil
  then show ?case by simp
next
  case (Cons x xs)
  obtain k p where x: "x = (k, p)" by (cases x)
  from Cons.prems x have fresh: "k \<notin> fst ` set acc" by auto
  have "fst ` set xs \<inter> fst ` set (acc @ [(k, p)]) = {}"
    using Cons.prems x by (auto simp: image_iff)
  with Cons.IH [of "acc @ [(k, p)]"] Cons.prems
  have "fold (\<lambda>(key, p) obj. obj_set obj key p) xs (acc @ [(k, p)]) = (acc @ [(k, p)]) @ xs"
    by simp
  with x fresh show ?case by (simp add: obj_set_fresh)
qed

lemma buildSchema_properties:
  "properties buildSchema =
     map (\<lambda>(key, config).
            (key, \<lparr>ptype = STRING, description =
               js ''Suggest a value for '' @ label config @ js ''. '' @
               (case config of
                  Select _ opts \<Rightarrow> js ''Choose one of: '' @ join (js '', '') opts
                | Text _ _ \<Rightarrow> [])\<rparr>))
       CONFIG_FIELDS"
proof -
  let ?entries = "map (\<lambda>(key, config).
            (key, \<lparr>ptype = STRING, description =
               js ''Suggest a value for '' @ label config @ js ''. '' @
               (case config of
                  Select _ opts \<Rightarrow> js ''Choose one of: '' @ join (js '', '') opts
                | Text _ _ \<Rightarrow> [])\<rparr>))
       CONFIG_FIELDS"
  have "map fst ?entries = registryKeys"
    by (simp add: registryKeys_def comp_def case_prod_unfold)
  with registryKeys_distinct have "distinct (map fst ?entries)" by simp
  then have "fold (\<lambda>(key, p) obj. obj_set obj key p) ?entries [] = [] @ ?entries"
    by (rule fold_obj_set_fresh) simp
  then show ?thesis by (simp add: buildSchema_def)
qed

lemma descriptions_eval:
  "map (\<lambda>(key, config).
            js ''Suggest a value for '' @ label config @ js ''. '' @
            (case config of
               Select _ opts \<Rightarrow> js ''Choose one of: '' @ join (js '', '') opts
             | Text _ _ \<Rightarrow> []))
       CONFIG_FIELDS =
     map js
       [''Suggest a value for Camera Movement. Choose one of: Static, Pan, Tilt, Zoom, Dolly, Handheld, Crane, Steadicam, Drone'',
        ''Suggest a value for Lighting Mode. Choose one of: Natural, Studio, Backlit, Low-key, High-key, Cinematic, Ambient, Hard Light'',
        ''Suggest a value for Mood. Choose one of: Cheerful, Dramatic, Calm, Mysterious, Romantic, Tense, Nostalgic, Epic'',
        ''Suggest a value for Color Palette. Choose one of: Warm, Cool, Monochrome, Pastel, Vibrant, Muted, Sepia, Neon'',
        ''Suggest a value for Subject Focus. Choose one of: Face, Full Body, Object, Group, Macro, Wide Shot, Close-up, Medium Shot'',
        ''Suggest a value for Environmental Details. '',
        ''Suggest a value for Background. '']"
  by (simp add: CONFIG_FIELDS_def js_def)

lemma sameFrame_refl: "sameFrame d d"
  by (simp add: sameFrame_def)

lemma sameFrame_trans: "sameFrame d d' \<Longrightarrow> sameFrame d' d'' \<Longrightarrow> sameFrame d d''"
  by (simp add: sameFrame_def)

lemma set_value_frame: "set_value d key v = Inr d' \<Longrightarrow> sameFrame d d'"
  by (auto simp: set_value_def sameFrame_def comp_def case_prod_unfold split: lookup.splits)

lemma merge_frame: "merge d es = (r, d') \<Longrightarrow> sameFrame d d'"
proof (induction es arbitrary: d)
  case Nil
  then show ?case by (simp add: sameFrame_refl)
next
  case (Cons e es)
  obtain key val where e: "e = (key, val)" by (cases e)
  show ?case
  proof (cases "\<exists>v. val = JString v \<and> truthy (get_control d key)")
    case False
    with Cons.prems e have "merge d es = (r, d')"
      by (cases val) auto
    then show ?thesis by (rule Cons.IH)
  next
    case True
    then obtain v where v: "val = JString v" "truthy (get_control d key)" by blast
    show ?thesis
    proof (cases "set_value d key v")
      case (Inl x)
      with Cons.prems e v have "d' = d" by simp
      then show ?thesis by (simp add: sameFrame_refl)
    next
      case (Inr d1)
      with Cons.prems e v have "merge d1 es = (r, d')" by simp
      then have "sameFrame d1 d'" by (rule Cons.IH)
      with set_value_frame [OF Inr] show ?thesis by (rule sameFrame_trans)
    qed
  qed
qed

lemma try_enhance_frame:
  assumes "try_enhance gc jp prompt d = (r, d')"
  shows "sameFrame (d\<lparr>effects := effects d @ [GenerateContent (buildRequest prompt)]\<rparr>) d'"
proof -
  let ?d = "d\<lparr>effects := effects d @ [GenerateContent (buildRequest prompt)]\<rparr>"
  show ?thesis
  proof (cases "gc (buildRequest prompt)")
    case None
    with assms show ?thesis by (simp add: try_enhance_def Let_def sameFrame_refl)
  next
    case (Some t)
    show ?thesis
    proof (cases "jp t")
      case None
      with Some assms show ?thesis by (simp add: try_enhance_def Let_def sameFrame_refl)
    next
      case (Some data)
      show ?thesis
      proof (cases "Object_entries data")
        case (Inl x)
        with Some \<open>gc (buildRequest prompt) = Some t\<close> assms show ?thesis
          by (simp add: try_enhance_def Let_def sameFrame_refl)
      next
        case (Inr es)
        with Some \<open>gc (buildRequest prompt) = Some t\<close> assms have "merge ?d es = (r, d')"
          by (simp add: try_enhance_def Let_def)
        then show ?thesis by (rule merge_frame)
      qed
    qed
  qed
qed

lemma try_enhance_failure:
  assumes "gc (buildRequest prompt) = None \<or> (\<exists>t. gc (buildRequest prompt) = Some t \<and> jp t = None)"
  shows "try_enhance gc jp prompt d =
         (Some (if gc (buildRequest prompt) = None then ServiceError else SyntaxError),
          d\<lparr>effects := effects d @ [GenerateContent (buildRequest prompt)]\<rparr>)"
  using assms by (auto simp: try_enhance_def Let_def)

lemma project_cong:
  "promptInput d' = promptInput d \<Longrightarrow> configControls d' = configControls d \<Longrightarrow>
   objectPrototypeValue d' = objectPrototypeValue d \<Longrightarrow> project d' = project d"
  by (cases "objectPrototypeValue d") (simp_all add: project_def for_in_def)

lemma handleEnhanceClick_run:
  assumes "promptInput d = Some p" and "enhanceButton d = Some b" and "trim p \<noteq> []"
    and "try_enhance gc jp (trim p)
           (d\<lparr>enhanceButton := Some \<lparr>disabled = True, textContent = js ''Enhancing...''\<rparr>\<rparr>) = (r, d1)"
  shows "handleEnhanceClick gc jp d =
         (generateAndDisplayJSON
            (case r of None \<Rightarrow> d1
             | Some error \<Rightarrow> d1\<lparr>effects := effects d1 @ [ConsoleError error,
                 Alert (js ''An error occurred while enhancing the prompt. Please check the console for details.'')]\<rparr>))
         \<lparr>enhanceButton := Some idleButton\<rparr>"
  using assms by (simp add: handleEnhanceClick_def Let_def)

lemma mars_trim: "trim (js ''A lone astronaut on Mars'') = js ''A lone astronaut on Mars''"
  by (simp add: js_def trim_def trimStart_def trimEnd_def isWhiteSpace_def)

lemma marsPage_fields:
  "promptInput marsPage = Some (js ''A lone astronaut on Mars'')"
  "enhanceButton marsPage = Some idleButton"
  "jsonOutput marsPage = Some (Shown [])"
  "effects marsPage = []"
  "configControls marsPage = map (\<lambda>k. (k, [])) registryKeys"
  "objectPrototypeValue marsPage = None"
  by (simp_all add: marsPage_def freshPage_eval)

lemma key_facts:
  "js ''__proto__'' \<notin> set registryKeys"
  "js ''value'' \<noteq> js ''__proto__''"
  "js ''value'' \<notin> set Object_prototype_functions"
  "js ''prompt'' \<noteq> js ''value''"
  "js ''x'' \<noteq> []"
  "js ''mood'' \<in> set registryKeys"
  by (simp_all add: registryKeys_eval Object_prototype_functions_def js_def)

lemma x_trim: "trim (js ''x'') = js ''x''"
  by (simp add: js_def trim_def trimStart_def trimEnd_def isWhiteSpace_def)

lemma marsPage_control_keys: "fst ` set (configControls marsPage) = set registryKeys"
  by (simp add: marsPage_fields image_comp comp_def)

lemma inherited_merge:
  assumes "configControls d = configControls marsPage" and "objectPrototypeValue d = None"
  shows "merge d
           [(js ''__proto__'', JString (js ''x'')), (js ''value'', JString (js ''y'')),
            (js ''mood'', JString (js ''Epic''))]
         = (Some TypeError, d\<lparr>objectPrototypeValue := Some (js ''x'')\<rparr>)"
  using assms
  by (simp add: get_control_def set_value_def marsPage_control_keys key_facts value_not_registry)

text \<open>
  Away from the keys that \<open>Object.prototype\<close> answers for, the loop does what the
  specification describes: on a page with the registry's controls, in a pristine
  environment, a response without the key \<open>__proto__\<close> sets every control whose key the
  response maps to a string, keeps every other control, and raises nothing.
\<close>

lemma merge_registry_entries:
  assumes "registryControls d" and "pristine d" and "distinct (map fst es)"
    and "js ''__proto__'' \<notin> fst ` set es"
  shows "merge d es =
         (None,
          d\<lparr>configControls :=
              map (\<lambda>(k, old). (k, case map_of es k of Some (JString v) \<Rightarrow> v | _ \<Rightarrow> old))
                (configControls d)\<rparr>)"
  using assms
proof (induction es arbitrary: d)
  case Nil
  then show ?case by (simp add: case_prod_unfold)
next
  case (Cons e es)
  obtain key val where e: "e = (key, val)" by (cases e)
  from Cons.prems e have fresh: "map_of es key = None" and dist: "distinct (map fst es)"
    and np: "js ''__proto__'' \<notin> fst ` set es" and kp: "key \<noteq> js ''__proto__''"
    by (auto simp: map_of_eq_None_iff)
  from Cons.prems(2) have env: "objectPrototypeValue d = None" by (simp add: pristine_def)
  show ?case
  proof (cases "\<exists>v. val = JString v \<and> key \<in> fst ` set (configControls d)")
    case True
    then obtain v where v: "val = JString v" and own: "key \<in> fst ` set (configControls d)" by blast
    let ?d1 = "d\<lparr>configControls :=
                   map (\<lambda>(k, old). if k = key then (k, v) else (k, old)) (configControls d)\<rparr>"
    have step: "merge d (e # es) = merge ?d1 es"
      using e v own by (simp add: get_control_def set_value_def)
    have keys1: "map fst (configControls ?d1) = map fst (configControls d)"
      by (simp add: comp_def case_prod_unfold)
    with Cons.prems(1) have r1: "registryControls ?d1" by (simp add: registryControls_def)
    from Cons.prems(2) have p1: "pristine ?d1" by (simp add: pristine_def)
    have "map (\<lambda>(k, old). (k, case map_of es k of Some (JString w) \<Rightarrow> w | _ \<Rightarrow> old))
            (configControls ?d1)
        = map (\<lambda>(k, old). (k, case map_of (e # es) k of Some (JString w) \<Rightarrow> w | _ \<Rightarrow> old))
            (configControls d)"
      using e v fresh by (auto simp: case_prod_unfold split: option.splits json.splits)
    with Cons.IH [OF r1 p1 dist np] step show ?thesis by simp
  next
    case False
    have step: "merge d (e # es) = merge d es"
    proof (cases "\<exists>v. val = JString v")
      case True
      then obtain v where v: "val = JString v" by blast
      with False have "key \<notin> fst ` set (configControls d)" by simp
      with e v kp env show ?thesis by (simp add: get_control_def set_value_def)
    next
      case False
      with e show ?thesis by (cases val) simp_all
    qed
    have "map (\<lambda>(k, old). (k, case map_of es k of Some (JString w) \<Rightarrow> w | _ \<Rightarrow> old))
            (configControls d)
        = map (\<lambda>(k, old). (k, case map_of (e # es) k of Some (JString w) \<Rightarrow> w | _ \<Rightarrow> old))
            (configControls d)"
    proof (intro map_cong refl)
      fix x assume x: "x \<in> set (configControls d)"
      obtain k old where ko: "x = (k, old)" by (cases x)
      show "(case x of (k, old) \<Rightarrow> (k, case map_of es k of Some (JString w) \<Rightarrow> w | _ \<Rightarrow> old))
          = (case x of (k, old) \<Rightarrow> (k, case map_of (e # es) k of Some (JString w) \<Rightarrow> w | _ \<Rightarrow> old))"
      proof (cases "k = key")
        case True
        with x ko have "key \<in> fst ` set (configControls d)" by force
        with False have "\<not> (\<exists>v. val = JString v)" by simp
        with True ko e fresh show ?thesis by (cases val) simp_all
      next
        case False
        with ko e show ?thesis by simp
      qed
    qed
    with Cons.IH [OF Cons.prems(1) Cons.prems(2) dist np] step show ?thesis by simp
  qed
qed

text \<open>The example of the specification: only \<open>cameraMovement\<close> is set.\<close>

lemma panResponse_merge:
  "Object_entries panResponse =
     Inr [(js ''cameraMovement'', JString (js ''Pan'')), (js ''mood'', JNumber 7),
          (js ''unknownKey'', JString (js ''x''))] \<and>
   merge marsPage
     [(js ''cameraMovement'', JString (js ''Pan'')), (js ''mood'', JNumber 7),
      (js ''unknownKey'', JString (js ''x''))]
   = (None, marsPage\<lparr>configControls :=
        [(js ''cameraMovement'', js ''Pan''), (js ''lightingMode'', []), (js ''mood'', []),
         (js ''colorPalette'', []), (js ''subjectFocus'', []), (js ''environmentalDetails'', []),
         (js ''background'', [])]\<rparr>)"
proof -
  have r: "registryControls marsPage"
    by (simp add: registryControls_def marsPage_fields comp_def)
  have p: "pristine marsPage" by (simp add: pristine_def marsPage_fields)
  have d: "distinct (map fst [(js ''cameraMovement'', JString (js ''Pan'')), (js ''mood'', JNumber 7),
      (js ''unknownKey'', JString (js ''x''))])"
    by (simp add: js_def)
  have n: "js ''__proto__'' \<notin> fst ` set [(js ''cameraMovement'', JString (js ''Pan'')), (js ''mood'', JNumber 7),
      (js ''unknownKey'', JString (js ''x''))]"
    by (simp add: js_def)
  have e: "Object_entries panResponse =
     Inr [(js ''cameraMovement'', JString (js ''Pan'')), (js ''mood'', JNumber 7),
          (js ''unknownKey'', JString (js ''x''))]"
    by (simp add: panResponse_def)
  have "merge marsPage
     [(js ''cameraMovement'', JString (js ''Pan'')), (js ''mood'', JNumber 7),
      (js ''unknownKey'', JString (js ''x''))]
   = (None, marsPage\<lparr>configControls :=
        [(js ''cameraMovement'', js ''Pan''), (js ''lightingMode'', []), (js ''mood'', []),
         (js ''colorPalette'', []), (js ''subjectFocus'', []), (js ''environmentalDetails'', []),
         (js ''background'', [])]\<rparr>)"
    unfolding merge_registry_entries [OF r p d n]
    by (simp add: marsPage_fields registryKeys_eval js_def)
  with e show ?thesis by (rule conjI)
qed

text \<open>An entry under the key \<open>prompt\<close> is skipped: no control has that key and
  \<open>Object.prototype\<close> has no such property.\<close>

lemma prompt_entry_skipped:
  assumes "registryControls d"
  shows "merge d ((js ''prompt'', v) # es) = merge d es"
proof -
  from assms have "fst ` set (configControls d) = set registryKeys"
    unfolding registryControls_def by (metis set_map)
  with prompt_not_registry have "js ''prompt'' \<notin> fst ` set (configControls d)" by simp
  moreover have "js ''prompt'' \<noteq> js ''__proto__''" "js ''prompt'' \<notin> set Object_prototype_functions"
    "js ''prompt'' \<noteq> js ''value''"
    by (simp_all add: Object_prototype_functions_def js_def)
  ultimately have "get_control d (js ''prompt'') = Undefined"
    by (simp add: get_control_def)
  then show ?thesis by (cases v) simp_all
qed

text \<open>
  Claim C1. The claim is that the merge writes every entry with a registry key and a
  string value and drops every other entry without an error. The guard
  \<open>dom.configControls[key]\<close> is also true of keys the object inherits. On the response
  \<open>{"__proto__": "x", "value": "y", "mood": "Epic"}\<close> the first entry puts the property
  \<open>value\<close> on \<open>Object.prototype\<close>, the second one then assigns to a property of the
  primitive string \<open>"x"\<close> and raises a TypeError, and \<open>mood\<close> is never written; the
  projection that follows shows the inherited key \<open>value\<close>.
\<close>

theorem merge_inherited_keys:
  "configControls (handleEnhanceClick (\<lambda>_. Some []) (\<lambda>_. Some inheritedKeysResponse) marsPage) =
     configControls marsPage \<and>
   objectPrototypeValue (handleEnhanceClick (\<lambda>_. Some []) (\<lambda>_. Some inheritedKeysResponse) marsPage) =
     Some (js ''x'') \<and>
   effects (handleEnhanceClick (\<lambda>_. Some []) (\<lambda>_. Some inheritedKeysResponse) marsPage) =
     [GenerateContent (buildRequest (js ''A lone astronaut on Mars'')),
      ConsoleError TypeError,
      Alert (js ''An error occurred while enhancing the prompt. Please check the console for details.'')] \<and>
   jsonOutput (handleEnhanceClick (\<lambda>_. Some []) (\<lambda>_. Some inheritedKeysResponse) marsPage) =
     Some (Shown [(js ''prompt'', js ''A lone astronaut on Mars''), (js ''value'', js ''x'')])"
proof -
  define busy where
    "busy = marsPage\<lparr>enhanceButton := Some \<lparr>disabled = True, textContent = js ''Enhancing...''\<rparr>\<rparr>"
  define sent where
    "sent = busy\<lparr>effects := effects busy @ [GenerateContent (buildRequest (js ''A lone astronaut on Mars''))]\<rparr>"
  define d1 where "d1 = sent\<lparr>objectPrototypeValue := Some (js ''x'')\<rparr>"
  define d2 where
    "d2 = d1\<lparr>effects := effects d1 @ [ConsoleError TypeError,
       Alert (js ''An error occurred while enhancing the prompt. Please check the console for details.'')]\<rparr>"
  have m: "merge sent
             [(js ''__proto__'', JString (js ''x'')), (js ''value'', JString (js ''y'')),
              (js ''mood'', JString (js ''Epic''))]
           = (Some TypeError, d1)"
    unfolding d1_def by (rule inherited_merge) (simp_all add: sent_def busy_def marsPage_fields)
  have t: "try_enhance (\<lambda>_. Some []) (\<lambda>_. Some inheritedKeysResponse)
             (trim (js ''A lone astronaut on Mars'')) busy = (Some TypeError, d1)"
    using m by (simp add: try_enhance_def Let_def inheritedKeysResponse_def mars_trim sent_def)
  have ne: "trim (js ''A lone astronaut on Mars'') \<noteq> []"
    by (simp add: mars_trim) (simp add: js_def)
  have run: "handleEnhanceClick (\<lambda>_. Some []) (\<lambda>_. Some inheritedKeysResponse) marsPage =
     (generateAndDisplayJSON d2)\<lparr>enhanceButton := Some idleButton\<rparr>"
    using handleEnhanceClick_run [OF marsPage_fields(1) marsPage_fields(2) ne t [unfolded busy_def]]
    by (simp add: d2_def)
  have fields:
    "promptInput d2 = Some (js ''A lone astronaut on Mars'')"
    "configControls d2 = configControls marsPage"
    "objectPrototypeValue d2 = Some (js ''x'')"
    "jsonOutput d2 = Some (Shown [])"
    "effects d2 = [GenerateContent (buildRequest (js ''A lone astronaut on Mars'')),
      ConsoleError TypeError,
      Alert (js ''An error occurred while enhancing the prompt. Please check the console for details.'')]"
    by (simp_all add: d2_def d1_def sent_def busy_def marsPage_fields)
  have reg: "registryControls d2"
    by (simp add: registryControls_def fields marsPage_fields comp_def)
  have f: "for_in d2 = configControls marsPage @ [(js ''value'', js ''x'')]"
    by (simp add: for_in_def fields marsPage_control_keys value_not_registry)
  have k: "kept (configControls marsPage) = []"
    by (simp add: kept_def marsPage_fields trim_Nil comp_def)
  have pe: "promptEntry d2 = [(js ''prompt'', js ''A lone astronaut on Mars'')]"
    using ne by (simp add: promptEntry_def fields mars_trim)
  have kf: "kept (for_in d2) = [(js ''value'', js ''x'')]"
    by (simp add: f kept_append k) (simp add: kept_def x_trim key_facts)
  have pj: "project d2 = [(js ''prompt'', js ''A lone astronaut on Mars''), (js ''value'', js ''x'')]"
    by (simp add: project_closed [OF reg] pe kf)
  show ?thesis
    by (simp add: run generateAndDisplayJSON_def fields pj)
qed

lemma handleEnhanceClick_form:
  assumes "promptInput d = Some p" and "enhanceButton d = Some b" and "trim p \<noteq> []"
    and "try_enhance gc jp (trim p)
           (d\<lparr>enhanceButton := Some \<lparr>disabled = True, textContent = js ''Enhancing...''\<rparr>\<rparr>) = (r, d1)"
  shows "promptInput (handleEnhanceClick gc jp d) = promptInput d1"
    and "configControls (handleEnhanceClick gc jp d) = configControls d1"
    and "objectPrototypeValue (handleEnhanceClick gc jp d) = objectPrototypeValue d1"
  using handleEnhanceClick_run [OF assms]
  by (simp_all add: generateAndDisplayJSON_def split: option.splits)

lemma mars_ne: "trim (js ''A lone astronaut on Mars'') \<noteq> []"
  by (simp add: mars_trim) (simp add: js_def)

lemma pollutedPage_form:
  "promptInput pollutedPage = Some (js ''A lone astronaut on Mars'')"
  "configControls pollutedPage = map (\<lambda>k. (k, [])) registryKeys"
  "objectPrototypeValue pollutedPage = Some (js ''x'')"
proof -
  define busy where
    "busy = marsPage\<lparr>enhanceButton := Some \<lparr>disabled = True, textContent = js ''Enhancing...''\<rparr>\<rparr>"
  define sent where
    "sent = busy\<lparr>effects := effects busy @ [GenerateContent (buildRequest (js ''A lone astronaut on Mars''))]\<rparr>"
  have m: "merge sent
             [(js ''__proto__'', JString (js ''x'')), (js ''value'', JString (js ''y'')),
              (js ''mood'', JString (js ''Epic''))]
           = (Some TypeError, sent\<lparr>objectPrototypeValue := Some (js ''x'')\<rparr>)"
    by (rule inherited_merge) (simp_all add: sent_def busy_def marsPage_fields)
  have t: "try_enhance (\<lambda>_. Some []) (\<lambda>_. Some inheritedKeysResponse)
             (trim (js ''A lone astronaut on Mars'')) busy
           = (Some TypeError, sent\<lparr>objectPrototypeValue := Some (js ''x'')\<rparr>)"
    using m by (simp add: try_enhance_def Let_def inheritedKeysResponse_def mars_trim sent_def)
  note f = handleEnhanceClick_form [OF marsPage_fields(1) marsPage_fields(2) mars_ne t [unfolded busy_def]]
  show "promptInput pollutedPage = Some (js ''A lone astronaut on Mars'')"
    unfolding pollutedPage_def f(1) by (simp add: sent_def busy_def marsPage_fields)
  show "configControls pollutedPage = map (\<lambda>k. (k, [])) registryKeys"
    unfolding pollutedPage_def f(2) by (simp add: sent_def busy_def marsPage_fields)
  show "objectPrototypeValue pollutedPage = Some (js ''x'')"
    unfolding pollutedPage_def f(3) by simp
qed

lemma proto_mood_merge:
  assumes "configControls d = configControls marsPage" and "objectPrototypeValue d = None"
  shows "merge d [(js ''__proto__'', JString (js ''x'')), (js ''mood'', JString (js ''Epic''))]
         = (None,
            d\<lparr>objectPrototypeValue := Some (js ''x''),
              configControls :=
                map (\<lambda>(k, old). if k = js ''mood'' then (k, js ''Epic'') else (k, old))
                  (configControls marsPage)\<rparr>)"
  using assms
  by (simp add: get_control_def set_value_def marsPage_control_keys key_facts)

lemma pollutedMoodPage_form:
  "promptInput pollutedMoodPage = Some (js ''A lone astronaut on Mars'')"
  "configControls pollutedMoodPage =
     [(js ''cameraMovement'', []), (js ''lightingMode'', []), (js ''mood'', js ''Epic''),
      (js ''colorPalette'', []), (js ''subjectFocus'', []), (js ''environmentalDetails'', []),
      (js ''background'', [])]"
  "objectPrototypeValue pollutedMoodPage = Some (js ''x'')"
proof -
  define busy where
    "busy = marsPage\<lparr>enhanceButton := Some \<lparr>disabled = True, textContent = js ''Enhancing...''\<rparr>\<rparr>"
  define sent where
    "sent = busy\<lparr>effects := effects busy @ [GenerateContent (buildRequest (js ''A lone astronaut on Mars''))]\<rparr>"
  define d1 where
    "d1 = sent\<lparr>objectPrototypeValue := Some (js ''x''),
              configControls :=
                map (\<lambda>(k, old). if k = js ''mood'' then (k, js ''Epic'') else (k, old))
                  (configControls marsPage)\<rparr>"
  have m: "merge sent [(js ''__proto__'', JString (js ''x'')), (js ''mood'', JString (js ''Epic''))]
           = (None, d1)"
    unfolding d1_def by (rule proto_mood_merge) (simp_all add: sent_def busy_def marsPage_fields)
  have t: "try_enhance (\<lambda>_. Some []) (\<lambda>_. Some protoMoodResponse)
             (trim (js ''A lone astronaut on Mars'')) busy = (None, d1)"
    using m by (simp add: try_enhance_def Let_def protoMoodResponse_def mars_trim sent_def)
  note f = handleEnhanceClick_form [OF marsPage_fields(1) marsPage_fields(2) mars_ne t [unfolded busy_def]]
  show "promptInput pollutedMoodPage = Some (js ''A lone astronaut on Mars'')"
    unfolding pollutedMoodPage_def f(1) by (simp add: d1_def sent_def busy_def marsPage_fields)
  show "configControls pollutedMoodPage =
     [(js ''cameraMovement'', []), (js ''lightingMode'', []), (js ''mood'', js ''Epic''),
      (js ''colorPalette'', []), (js ''subjectFocus'', []), (js ''environmentalDetails'', []),
      (js ''background'', [])]"
    unfolding pollutedMoodPage_def f(2)
    by (simp add: d1_def marsPage_fields registryKeys_eval js_def)
  show "objectPrototypeValue pollutedMoodPage = Some (js ''x'')"
    unfolding pollutedMoodPage_def f(3) by (simp add: d1_def)
qed

text \<open>
  Claim C3. The claim is that the projected object never has a key outside the prompt
  key and the registry keys. The loop \<open>for (const key in dom.configControls)\<close> also
  visits the enumerable keys the object inherits. On the page the program reaches from
  \<open>marsPage\<close> on the response \<open>{"__proto__": "x", "value": "y", "mood": "Epic"}\<close>, a
  page with the registry's controls, the projected object has the key \<open>value\<close>, which
  is neither the prompt key nor a registry key.
\<close>

theorem project_inherited_key:
  "registryControls pollutedPage \<and>
   project pollutedPage = [(js ''prompt'', js ''A lone astronaut on Mars''), (js ''value'', js ''x'')] \<and>
   js ''value'' \<notin> set (js ''prompt'' # registryKeys)"
proof -
  have reg: "registryControls pollutedPage"
    by (simp add: registryControls_def pollutedPage_form comp_def)
  have f: "for_in pollutedPage = map (\<lambda>k. (k, [])) registryKeys @ [(js ''value'', js ''x'')]"
    by (simp add: for_in_def pollutedPage_form image_comp comp_def value_not_registry)
  have k: "kept (map (\<lambda>k. (k, [])) registryKeys) = []"
    by (simp add: kept_def trim_Nil comp_def)
  have pe: "promptEntry pollutedPage = [(js ''prompt'', js ''A lone astronaut on Mars'')]"
    using mars_ne by (simp add: promptEntry_def pollutedPage_form mars_trim)
  have kf: "kept (for_in pollutedPage) = [(js ''value'', js ''x'')]"
    by (simp add: f kept_append k) (simp add: kept_def x_trim key_facts)
  have pj: "project pollutedPage =
            [(js ''prompt'', js ''A lone astronaut on Mars''), (js ''value'', js ''x'')]"
    by (simp add: project_closed [OF reg] pe kf)
  have out: "js ''value'' \<notin> set (js ''prompt'' # registryKeys)"
    using value_not_registry key_facts(4) by auto
  from reg pj out show ?thesis by simp
qed

text \<open>
  Claim C4. The claim is that the keys of the projected object are the prompt key
  followed by the registry keys whose trimmed value is not empty. On the page the
  program reaches from \<open>marsPage\<close> on the response \<open>{"__proto__": "x", "mood": "Epic"}\<close>
  the claimed keys are \<open>prompt\<close> and \<open>mood\<close>, and the projected object has the keys
  \<open>prompt\<close>, \<open>mood\<close> and \<open>value\<close>.
\<close>

theorem project_order_inherited_key:
  "registryControls pollutedMoodPage \<and>
   map fst (project pollutedMoodPage) = [js ''prompt'', js ''mood'', js ''value''] \<and>
   (if trim (formValue pollutedMoodPage (js ''prompt'')) \<noteq> [] then [js ''prompt''] else []) @
     filter (\<lambda>k. trim (formValue pollutedMoodPage k) \<noteq> []) registryKeys
   = [js ''prompt'', js ''mood'']"
proof -
  have reg: "registryControls pollutedMoodPage"
    by (simp add: registryControls_def pollutedMoodPage_form registryKeys_eval)
  have pj: "project pollutedMoodPage =
     [(js ''prompt'', js ''A lone astronaut on Mars''), (js ''mood'', js ''Epic''),
      (js ''value'', js ''x'')]"
    by (simp add: project_def for_in_def pollutedMoodPage_form
        js_def trim_def trimStart_def trimEnd_def isWhiteSpace_def)
  have ex: "(if trim (formValue pollutedMoodPage (js ''prompt'')) \<noteq> [] then [js ''prompt''] else []) @
     filter (\<lambda>k. trim (formValue pollutedMoodPage k) \<noteq> []) registryKeys
   = [js ''prompt'', js ''mood'']"
    by (simp add: formValue_def pollutedMoodPage_form registryKeys_eval
        js_def trim_def trimStart_def trimEnd_def isWhiteSpace_def)
  from reg pj ex show ?thesis by simp
qed

text \<open>
  Claim C2. When the trimmed prompt is empty, the click only shows the notice
  "Please enter a prompt first.": the state is otherwise the one before, so the trace
  gains no request to the generation service and the form keeps every value.
\<close>

theorem enhance_empty_prompt:
  assumes "promptInput d = Some p" and "enhanceButton d = Some b" and "trim p = []"
  shows "handleEnhanceClick generateContent JSON_parse d =
           d\<lparr>effects := effects d @ [Alert (js ''Please enter a prompt first.'')]\<rparr> \<and>
         (\<forall>r. GenerateContent r \<notin>
                set (drop (length (effects d)) (effects (handleEnhanceClick generateContent JSON_parse d)))) \<and>
         promptInput (handleEnhanceClick generateContent JSON_parse d) = promptInput d \<and>
         configControls (handleEnhanceClick generateContent JSON_parse d) = configControls d"
  using assms by (simp add: handleEnhanceClick_def)

theorem enhance_empty_prompt_witness:
  "promptInput blankPromptPage = Some [0x0020, 0x0009, 0x3000, 0x000A] \<and>
   enhanceButton blankPromptPage = Some idleButton \<and>
   trim [0x0020, 0x0009, 0x3000, 0x000A] = [] \<and>
   handleEnhanceClick (\<lambda>_. Some (js ''{}'')) (\<lambda>_. Some (JObject [])) blankPromptPage =
     blankPromptPage\<lparr>effects := [Alert (js ''Please enter a prompt first.'')]\<rparr>"
proof -
  have p: "promptInput blankPromptPage = Some [0x0020, 0x0009, 0x3000, 0x000A]"
    and b: "enhanceButton blankPromptPage = Some idleButton"
    and e: "effects blankPromptPage = []"
    by (simp_all add: blankPromptPage_def freshPage_eval)
  have t: "trim [0x0020, 0x0009, 0x3000, 0x000A] = []"
    by (simp add: trim_def trimStart_def trimEnd_def isWhiteSpace_def)
  from enhance_empty_prompt [OF p b t, of "\<lambda>_. Some (js ''{}'')" "\<lambda>_. Some (JObject [])"] p b t e
  show ?thesis by simp
qed

text \<open>
  Claim C5. When the request raises, or the text of the response does not parse, the
  click logs the error and shows the error notice, and the prompt, every control and
  the environment are as before the click.
\<close>

theorem enhance_failure_keeps_form:
  assumes "promptInput d = Some p" and "enhanceButton d = Some b" and "trim p \<noteq> []"
    and "generateContent (buildRequest (trim p)) = None \<or>
         (\<exists>t. generateContent (buildRequest (trim p)) = Some t \<and> JSON_parse t = None)"
  shows "promptInput (handleEnhanceClick generateContent JSON_parse d) = promptInput d \<and>
         configControls (handleEnhanceClick generateContent JSON_parse d) = configControls d \<and>
         objectPrototypeValue (handleEnhanceClick generateContent JSON_parse d) = objectPrototypeValue d \<and>
         effects (handleEnhanceClick generateContent JSON_parse d) =
           effects d @
           [GenerateContent (buildRequest (trim p)),
            ConsoleError (if generateContent (buildRequest (trim p)) = None then ServiceError else SyntaxError),
            Alert (js ''An error occurred while enhancing the prompt. Please check the console for details.'')]"
proof -
  let ?d0 = "d\<lparr>enhanceButton := Some \<lparr>disabled = True, textContent = js ''Enhancing...''\<rparr>\<rparr>"
  from assms(4) have t: "try_enhance generateContent JSON_parse (trim p) ?d0 =
         (Some (if generateContent (buildRequest (trim p)) = None then ServiceError else SyntaxError),
          ?d0\<lparr>effects := effects ?d0 @ [GenerateContent (buildRequest (trim p))]\<rparr>)"
    by (rule try_enhance_failure)
  from handleEnhanceClick_run [OF assms(1-3) t] show ?thesis
    by (simp add: generateAndDisplayJSON_def split: option.splits)
qed

theorem enhance_failure_keeps_form_witness:
  "promptInput marsPage = Some (js ''A lone astronaut on Mars'') \<and>
   enhanceButton marsPage = Some idleButton \<and>
   trim (js ''A lone astronaut on Mars'') \<noteq> [] \<and>
   (\<lambda>_. Some (js ''Sorry, no JSON'')) (buildRequest (trim (js ''A lone astronaut on Mars''))) =
     Some (js ''Sorry, no JSON'') \<and>
   (\<lambda>_. None :: json option) (js ''Sorry, no JSON'') = None \<and>
   promptInput (handleEnhanceClick (\<lambda>_. Some (js ''Sorry, no JSON'')) (\<lambda>_. None) marsPage) =
     Some (js ''A lone astronaut on Mars'') \<and>
   configControls (handleEnhanceClick (\<lambda>_. Some (js ''Sorry, no JSON'')) (\<lambda>_. None) marsPage) =
     map (\<lambda>k. (k, [])) registryKeys \<and>
   effects (handleEnhanceClick (\<lambda>_. Some (js ''Sorry, no JSON'')) (\<lambda>_. None) marsPage) =
     [GenerateContent (buildRequest (js ''A lone astronaut on Mars'')),
      ConsoleError SyntaxError,
      Alert (js ''An error occurred while enhancing the prompt. Please check the console for details.'')]"
proof -
  have t: "trim (js ''A lone astronaut on Mars'') \<noteq> []"
    by (simp add: mars_trim) (simp add: js_def)
  have f: "(\<lambda>_. Some (js ''Sorry, no JSON'')) (buildRequest (trim (js ''A lone astronaut on Mars''))) = None \<or>
     (\<exists>t. (\<lambda>_. Some (js ''Sorry, no JSON'')) (buildRequest (trim (js ''A lone astronaut on Mars''))) = Some t \<and>
          (\<lambda>_. None :: json option) t = None)"
    by simp
  from enhance_failure_keeps_form [OF marsPage_fields(1) marsPage_fields(2) t f] t
  show ?thesis by (simp add: marsPage_fields mars_trim)
qed

text \<open>
  Claim C6. Once the prompt passes the check, whatever the service and the parser do, the
  click ends with the button enabled under its idle label and with the display showing
  the projection of the form as the click leaves it.
\<close>

theorem enhance_finally:
  assumes "promptInput d = Some p" and "enhanceButton d = Some b" and "trim p \<noteq> []"
  shows "enhanceButton (handleEnhanceClick generateContent JSON_parse d) =
           Some \<lparr>disabled = False, textContent = js ''Enhance with AI''\<rparr> \<and>
         jsonOutput (handleEnhanceClick generateContent JSON_parse d) =
           map_option (\<lambda>_. Shown (project (handleEnhanceClick generateContent JSON_parse d)))
             (jsonOutput d)"
proof -
  obtain r d1 where t: "try_enhance generateContent JSON_parse (trim p)
       (d\<lparr>enhanceButton := Some \<lparr>disabled = True, textContent = js ''Enhancing...''\<rparr>\<rparr>) = (r, d1)"
    by (cases "try_enhance generateContent JSON_parse (trim p)
       (d\<lparr>enhanceButton := Some \<lparr>disabled = True, textContent = js ''Enhancing...''\<rparr>\<rparr>)")
  let ?d2 = "case r of None \<Rightarrow> d1
             | Some error \<Rightarrow> d1\<lparr>effects := effects d1 @ [ConsoleError error,
                 Alert (js ''An error occurred while enhancing the prompt. Please check the console for details.'')]\<rparr>"
  have run: "handleEnhanceClick generateContent JSON_parse d =
             (generateAndDisplayJSON ?d2)\<lparr>enhanceButton := Some idleButton\<rparr>"
    using assms t by (rule handleEnhanceClick_run)
  from try_enhance_frame [OF t] have j: "jsonOutput ?d2 = jsonOutput d"
    by (simp add: sameFrame_def split: option.splits)
  have "project ((generateAndDisplayJSON ?d2)\<lparr>enhanceButton := Some idleButton\<rparr>) = project ?d2"
    by (rule project_cong) (simp_all add: generateAndDisplayJSON_def split: option.splits)
  with run j show ?thesis
    by (cases "jsonOutput d") (simp_all add: generateAndDisplayJSON_def idleButton_def)
qed

theorem enhance_finally_witness:
  "promptInput marsPage = Some (js ''A lone astronaut on Mars'') \<and>
   enhanceButton marsPage = Some idleButton \<and>
   trim (js ''A lone astronaut on Mars'') \<noteq> [] \<and>
   enhanceButton (handleEnhanceClick (\<lambda>_. None) (\<lambda>_. None) marsPage) =
     Some \<lparr>disabled = False, textContent = js ''Enhance with AI''\<rparr> \<and>
   jsonOutput (handleEnhanceClick (\<lambda>_. None) (\<lambda>_. None) marsPage) =
     Some (Shown (project (handleEnhanceClick (\<lambda>_. None) (\<lambda>_. None) marsPage))) \<and>
   jsonOutput (handleEnhanceClick (\<lambda>_. None) (\<lambda>_. None) marsPage) =
     Some (Shown [(js ''prompt'', js ''A lone astronaut on Mars'')])"
proof -
  have t: "trim (js ''A lone astronaut on Mars'') \<noteq> []"
    by (simp add: mars_trim) (simp add: js_def)
  have e: "jsonOutput (handleEnhanceClick (\<lambda>_. None) (\<lambda>_. None) marsPage) =
     Some (Shown [(js ''prompt'', js ''A lone astronaut on Mars'')])"
    by (simp add: handleEnhanceClick_def marsPage_fields mars_trim Let_def try_enhance_def
        generateAndDisplayJSON_def project_def for_in_def registryKeys_eval trim_Nil)
       (simp add: js_def)
  from enhance_finally [OF marsPage_fields(1) marsPage_fields(2) t, of "\<lambda>_. None" "\<lambda>_. None"] t e
  show ?thesis by (simp add: marsPage_fields)
qed

text \<open>
  Claim C8. The click never changes the value of the prompt, whatever the response
  holds.
\<close>

theorem enhance_keeps_prompt:
  "promptInput (handleEnhanceClick generateContent JSON_parse d) = promptInput d"
proof (cases "promptInput d")
  case None
  then show ?thesis by (simp add: handleEnhanceClick_def)
next
  case (Some p)
  show ?thesis
  proof (cases "enhanceButton d")
    case None
    with Some show ?thesis by (simp add: handleEnhanceClick_def)
  next
    case (Some b)
    show ?thesis
    proof (cases "trim p = []")
      case True
      with Some \<open>promptInput d = Some p\<close> show ?thesis by (simp add: handleEnhanceClick_def)
    next
      case False
      obtain r d1 where t: "try_enhance generateContent JSON_parse (trim p)
           (d\<lparr>enhanceButton := Some \<lparr>disabled = True, textContent = js ''Enhancing...''\<rparr>\<rparr>) = (r, d1)"
        by (cases "try_enhance generateContent JSON_parse (trim p)
           (d\<lparr>enhanceButton := Some \<lparr>disabled = True, textContent = js ''Enhancing...''\<rparr>\<rparr>)")
      from try_enhance_frame [OF t] have "promptInput d1 = promptInput d"
        by (simp add: sameFrame_def)
      with handleEnhanceClick_run [OF \<open>promptInput d = Some p\<close> Some False t]
      show ?thesis by (simp add: generateAndDisplayJSON_def split: option.splits)
    qed
  qed
qed

text \<open>
  Claim C7. The schema is an object schema with one property per registry key, in
  registry order, none of them the prompt key, each of type string; the description of
  a select field ends with its option list, and the description of a text field has
  none.
\<close>

theorem schema_properties:
  "stype buildSchema = OBJECT \<and>
   map fst (properties buildSchema) = registryKeys \<and>
   js ''prompt'' \<notin> fst ` set (properties buildSchema) \<and>
   map (\<lambda>(key, p). ptype p) (properties buildSchema) = map (\<lambda>key. STRING) registryKeys \<and>
   map (\<lambda>(key, p). description p) (properties buildSchema) =
     map (\<lambda>(key, config).
            js ''Suggest a value for '' @ label config @ js ''. '' @
            (case config of
               Select _ opts \<Rightarrow> js ''Choose one of: '' @ join (js '', '') opts
             | Text _ _ \<Rightarrow> []))
       CONFIG_FIELDS \<and>
   map (\<lambda>(key, p). description p) (properties buildSchema) =
     map js
       [''Suggest a value for Camera Movement. Choose one of: Static, Pan, Tilt, Zoom, Dolly, Handheld, Crane, Steadicam, Drone'',
        ''Suggest a value for Lighting Mode. Choose one of: Natural, Studio, Backlit, Low-key, High-key, Cinematic, Ambient, Hard Light'',
        ''Suggest a value for Mood. Choose one of: Cheerful, Dramatic, Calm, Mysterious, Romantic, Tense, Nostalgic, Epic'',
        ''Suggest a value for Color Palette. Choose one of: Warm, Cool, Monochrome, Pastel, Vibrant, Muted, Sepia, Neon'',
        ''Suggest a value for Subject Focus. Choose one of: Face, Full Body, Object, Group, Macro, Wide Shot, Close-up, Medium Shot'',
        ''Suggest a value for Environmental Details. '',
        ''Suggest a value for Background. '']"
proof -
  have 1: "stype buildSchema = OBJECT" by (simp add: buildSchema_def)
  have 2: "map fst (properties buildSchema) = registryKeys"
    by (simp add: buildSchema_properties registryKeys_def comp_def case_prod_unfold)
  have 3: "js ''prompt'' \<notin> fst ` set (properties buildSchema)"
    using 2 prompt_not_registry by (metis set_map)
  have 4: "map (\<lambda>(key, p). ptype p) (properties buildSchema) = map (\<lambda>key. STRING) registryKeys"
    by (simp add: buildSchema_properties registryKeys_def comp_def case_prod_unfold)
  have 5: "map (\<lambda>(key, p). description p) (properties buildSchema) =
     map (\<lambda>(key, config).
            js ''Suggest a value for '' @ label config @ js ''. '' @
            (case config of
               Select _ opts \<Rightarrow> js ''Choose one of: '' @ join (js '', '') opts
             | Text _ _ \<Rightarrow> []))
       CONFIG_FIELDS"
    by (simp add: buildSchema_properties comp_def case_prod_unfold)
  from 1 2 3 4 5 descriptions_eval show ?thesis by (simp only:) simp
qed

section \<open>Batch generation\<close>

lemma batch_list:
  "length (map f [1..<Suc quantity]) = quantity \<and>
   (\<forall>i<quantity. map f [1..<Suc quantity] ! i = f (i + 1))"
proof (intro conjI allI impI)
  show "length (map f [1..<Suc quantity]) = quantity" by simp
next
  fix i assume "i < quantity"
  then have "[1..<Suc quantity] ! i = 1 + i" by (intro nth_upt) simp
  moreover from \<open>i < quantity\<close> have "i < length [1..<Suc quantity]" by simp
  ultimately show "map f [1..<Suc quantity] ! i = f (i + 1)"
    by (simp only: nth_map add.commute)
qed

lemma map_callback_total: "map_callback (\<lambda>i. Inr (f i)) xs = Inr (map f xs)"
  by (induction xs) simp_all

lemma map_callback_raise: "xs \<noteq> [] \<Longrightarrow> map_callback (\<lambda>i. Inl e) xs = Inl e"
  by (cases xs) simp_all

lemma batch_indices: "map f (map Suc [0..<quantity]) = map f [1..<Suc quantity]"
  by (simp only: map_Suc_upt One_nat_def)

text \<open>
  Claim C10, as stated, fails in two ways: at a quantity beyond the largest array length
  the call raises a RangeError, and with a Symbol as the keyword it raises a TypeError
  as soon as one prompt is asked for.
\<close>

theorem generatePromptsBatch_fails:
  "generatePromptsBatch (\<lambda>n. None) (FormObject (Some (VString (js ''cat'')))) (2 ^ 32) =
     Inl RangeError \<and>
   generatePromptsBatch (\<lambda>n. None) (FormObject (Some VSymbol)) 1 = Inl TypeError"
  by (simp add: generatePromptsBatch_def keyword_def)

text \<open>
  Claim C10, amended. With a keyword field of any value, the call raises a RangeError
  for every quantity from \<open>2^32\<close> on, and whatever the engine raises when it refuses the
  array. Otherwise quantity zero gives the empty list; a keyword that does not convert
  to a string (a Symbol) makes the call raise that conversion's exception; and a
  keyword that converts to the string \<open>s\<close> (every string is its own conversion) gives
  exactly \<open>quantity\<close> strings, number \<open>i\<close> counted from one being
  "Generated prompt i for s".
\<close>

theorem generatePromptsBatch_result:
  "generatePromptsBatch allocate (FormObject (Some v)) quantity =
     (if 2 ^ 32 \<le> quantity then Inl RangeError
      else case allocate quantity of
             Some e \<Rightarrow> Inl e
           | None \<Rightarrow>
               if quantity = 0 then Inr []
               else case ToString v of
                      Inl e \<Rightarrow> Inl e
                    | Inr s \<Rightarrow>
                        Inr (map (\<lambda>i. js ''Generated prompt '' @ digits i @ js '' for '' @ s)
                               [1..<Suc quantity])) \<and>
   (quantity < 2 ^ 32 \<and> allocate quantity = None \<and> ToString v = Inr s \<longrightarrow>
      (case generatePromptsBatch allocate (FormObject (Some v)) quantity of
         Inl e \<Rightarrow> False
       | Inr prompts \<Rightarrow>
           length prompts = quantity \<and>
           (\<forall>i<quantity.
              prompts ! i = js ''Generated prompt '' @ digits (i + 1) @ js '' for '' @ s)))"
proof -
  let ?line = "\<lambda>s i. js ''Generated prompt '' @ digits i @ js '' for '' @ s"
  have ok: "map_callback
              (\<lambda>i. case keyword (FormObject (Some v)) of
                      Inl e \<Rightarrow> Inl e
                    | Inr w \<Rightarrow>
                        (case ToString w of
                           Inl e \<Rightarrow> Inl e
                         | Inr k \<Rightarrow>
                             Inr (js ''Generated prompt '' @ digits (i + 1) @ js '' for '' @ k)))
              [0..<quantity]
            = Inr (map (?line s) [1..<Suc quantity])"
    if s: "ToString v = Inr s" for s
  proof -
    have "map (\<lambda>i. ?line s (i + 1)) [0..<quantity] = map (?line s) (map Suc [0..<quantity])"
      by simp
    also have "\<dots> = map (?line s) [1..<Suc quantity]" by (rule batch_indices)
    finally show ?thesis by (simp add: keyword_def s map_callback_total)
  qed
  have bad: "map_callback
              (\<lambda>i. case keyword (FormObject (Some v)) of
                      Inl e \<Rightarrow> Inl e
                    | Inr w \<Rightarrow>
                        (case ToString w of
                           Inl e \<Rightarrow> Inl e
                         | Inr k \<Rightarrow>
                             Inr (js ''Generated prompt '' @ digits (i + 1) @ js '' for '' @ k)))
              [0..<quantity]
            = Inl e"
    if e: "ToString v = Inl e" and q: "quantity \<noteq> 0" for e
  proof -
    from q have "[0..<quantity] \<noteq> []" by simp
    then have "map_callback (\<lambda>i. Inl e) [0..<quantity] = Inl e" by (rule map_callback_raise)
    then show ?thesis by (simp add: keyword_def e)
  qed
  have first: "generatePromptsBatch allocate (FormObject (Some v)) quantity =
     (if 2 ^ 32 \<le> quantity then Inl RangeError
      else case allocate quantity of
             Some e \<Rightarrow> Inl e
           | None \<Rightarrow>
               if quantity = 0 then Inr []
               else case ToString v of
                      Inl e \<Rightarrow> Inl e
                    | Inr s \<Rightarrow> Inr (map (?line s) [1..<Suc quantity]))"
  proof (cases "(2::nat) ^ 32 \<le> quantity")
    case True
    then show ?thesis by (simp add: generatePromptsBatch_def)
  next
    case small: False
    show ?thesis
    proof (cases "allocate quantity")
      case (Some e)
      with small show ?thesis by (simp add: generatePromptsBatch_def)
    next
      case None
      show ?thesis
      proof (cases "quantity = 0")
        case True
        with small None show ?thesis by (simp add: generatePromptsBatch_def)
      next
        case False
        show ?thesis
        proof (cases "ToString v")
          case (Inl e)
          from bad [OF Inl False] small None False Inl show ?thesis
            by (simp add: generatePromptsBatch_def)
        next
          case (Inr s)
          from ok [OF Inr] small None False Inr show ?thesis
            by (simp add: generatePromptsBatch_def)
        qed
      qed
    qed
  qed
  have second: "case generatePromptsBatch allocate (FormObject (Some v)) quantity of
         Inl e \<Rightarrow> False
       | Inr prompts \<Rightarrow>
           length prompts = quantity \<and>
           (\<forall>i<quantity. prompts ! i = ?line s (i + 1))"
    if h: "quantity < 2 ^ 32" "allocate quantity = None" "ToString v = Inr s"
  proof -
    from ok [OF h(3)] h(1) h(2)
    have eq: "generatePromptsBatch allocate (FormObject (Some v)) quantity =
              Inr (map (?line s) [1..<Suc quantity])"
      by (simp add: generatePromptsBatch_def)
    from batch_list [of "?line s" quantity] show ?thesis
      by (simp only: eq sum.case) simp
  qed
  from first second show ?thesis by blast
qed

theorem generatePromptsBatch_result_witness:
  "(3::nat) < 2 ^ 32 \<and> (\<lambda>n. None :: exception option) (3::nat) = None \<and>
   ToString (VString (js ''cat'')) = Inr (js ''cat'') \<and>
   generatePromptsBatch (\<lambda>n. None) (FormObject (Some (VString (js ''cat'')))) 3 =
     Inr [js ''Generated prompt 1 for cat'', js ''Generated prompt 2 for cat'',
          js ''Generated prompt 3 for cat''] \<and>
   (case generatePromptsBatch (\<lambda>n. None) (FormObject (Some (VString (js ''cat'')))) 3 of
      Inl e \<Rightarrow> False
    | Inr prompts \<Rightarrow>
        length prompts = 3 \<and> prompts ! 2 = js ''Generated prompt '' @ digits (2 + 1) @ js '' for cat'') \<and>
   generatePromptsBatch (\<lambda>n. None) (FormObject (Some (VString (js ''cat'')))) 0 = Inr [] \<and>
   generatePromptsBatch (\<lambda>n. None) (FormObject (Some VSymbol)) 0 = Inr [] \<and>
   generatePromptsBatch (\<lambda>n. None) (FormObject (Some VSymbol)) 3 = Inl TypeError \<and>
   generatePromptsBatch (\<lambda>n. if n < 2 ^ 27 then None else Some RangeError)
     (FormObject (Some (VString (js ''cat'')))) (2 ^ 27) = Inl RangeError"
proof -
  have u: "[Suc 0..<4] = [Suc 0, 2, 3]" by code_simp
  have d: "digits (Suc 0) = js ''1''" "digits 2 = js ''2''" "digits 3 = js ''3''"
    by (simp_all add: digits.simps js_def)
  have h: "(3::nat) < 2 ^ 32 \<and> (\<lambda>n. None :: exception option) (3::nat) = None \<and>
           ToString (VString (js ''cat'')) = Inr (js ''cat'')"
    by simp
  have two: "(2::nat) < 3" by simp
  from generatePromptsBatch_result
         [of "\<lambda>n. None" "VString (js ''cat'')" 3 "js ''cat''", THEN conjunct2, rule_format, OF h]
  have c: "case generatePromptsBatch (\<lambda>n. None) (FormObject (Some (VString (js ''cat'')))) 3 of
      Inl e \<Rightarrow> False
    | Inr prompts \<Rightarrow>
        length prompts = 3 \<and> prompts ! 2 = js ''Generated prompt '' @ digits (2 + 1) @ js '' for cat''"
    using two by (auto split: sum.splits simp: js_def)
  from generatePromptsBatch_result [of "\<lambda>n. None" "VString (js ''cat'')" 3, THEN conjunct1]
       generatePromptsBatch_result [of "\<lambda>n. None" "VString (js ''cat'')" 0, THEN conjunct1]
       generatePromptsBatch_result [of "\<lambda>n. None" VSymbol 0, THEN conjunct1]
       generatePromptsBatch_result [of "\<lambda>n. None" VSymbol 3, THEN conjunct1]
       generatePromptsBatch_result [of "\<lambda>n. if n < 2 ^ 27 then None else Some RangeError"
         "VString (js ''cat'')" "2 ^ 27", THEN conjunct1]
  have rest:
    "generatePromptsBatch (\<lambda>n. None) (FormObject (Some (VString (js ''cat'')))) 3 =
       Inr [js ''Generated prompt 1 for cat'', js ''Generated prompt 2 for cat'',
            js ''Generated prompt 3 for cat''] \<and>
     generatePromptsBatch (\<lambda>n. None) (FormObject (Some (VString (js ''cat'')))) 0 = Inr [] \<and>
     generatePromptsBatch (\<lambda>n. None) (FormObject (Some VSymbol)) 0 = Inr [] \<and>
     generatePromptsBatch (\<lambda>n. None) (FormObject (Some VSymbol)) 3 = Inl TypeError \<and>
     generatePromptsBatch (\<lambda>n. if n < 2 ^ 27 then None else Some RangeError)
       (FormObject (Some (VString (js ''cat'')))) (2 ^ 27) = Inl RangeError"
    by (simp add: u d) (simp add: js_def)
  from h c rest show ?thesis by blast
qed

end
